theory Spec2Isabelle
  imports Complex_Main
begin

section \<open>Conventions of the embedding\<close>

text \<open>
  The four calculators of \<^verbatim>\<open>backend/models\<close> are embedded as HOL functions.
  Python floats are read as real numbers, Python's unbounded integers as \<open>int\<close>,
  strings as \<open>string\<close>. Dictionaries whose iteration order the code relies on are
  association lists in declaration order; pure lookup tables are maps. Every
  exception the code can raise on well-typed arguments is a value of \<open>py_error\<close>,
  returned on the left of a sum.
\<close>

datatype py_error = ValueError | TypeError | KeyError | ZeroDivisionError

record dims =
  d_length :: real
  d_width :: real
  d_height :: real

text \<open>Python's \<^verbatim>\<open>int(x)\<close> on a float: truncation towards zero.\<close>

definition py_int :: "real \<Rightarrow> int" where
  "py_int x = (if 0 \<le> x then \<lfloor>x\<rfloor> else \<lceil>x\<rceil>)"

section \<open>Dimension optimizer (\<^verbatim>\<open>dimension_optimizer.py\<close>)\<close>

record box_dimensions = dims +
  volume :: real
  space_utilization :: real
  padding_applied :: dims

definition padding_multiplier :: "int \<rightharpoonup> real" where
  "padding_multiplier = [1 \<mapsto> 1.5, 2 \<mapsto> 2.0, 3 \<mapsto> 2.5, 4 \<mapsto> 3.0, 5 \<mapsto> 3.5]"

text \<open>\<^verbatim>\<open>padding_multiplier.get(fragility, 2.5)\<close>\<close>

definition base_padding :: "int \<Rightarrow> real" where
  "base_padding fragility =
     (case padding_multiplier fragility of Some p \<Rightarrow> p | None \<Rightarrow> 2.5)"

definition weight_factor :: "real \<Rightarrow> real" where
  "weight_factor weight =
     (if weight > 10 then 2.0
      else if weight > 5 then 1.5
      else if weight > 2 then 1.0
      else 0.5)"

definition optimize :: "real \<Rightarrow> real \<Rightarrow> real \<Rightarrow> real \<Rightarrow> int \<Rightarrow> box_dimensions" where
  "optimize product_length product_width product_height weight fragility =
     (let padding_length = base_padding fragility + weight_factor weight;
          padding_width = base_padding fragility + weight_factor weight;
          padding_height = base_padding fragility + weight_factor weight;
          optimal_length = max (of_int \<lceil>product_length + padding_length\<rceil>) 5.0;
          optimal_width = max (of_int \<lceil>product_width + padding_width\<rceil>) 5.0;
          optimal_height = max (of_int \<lceil>product_height + padding_height\<rceil>) 5.0;
          product_volume = product_length * product_width * product_height;
          box_volume = optimal_length * optimal_width * optimal_height;
          space_utilization = (product_volume / box_volume) * 100
      in \<lparr> d_length = optimal_length,
           d_width = optimal_width,
           d_height = optimal_height,
           volume = box_volume,
           space_utilization = space_utilization,
           padding_applied = \<lparr> d_length = padding_length,
                                d_width = padding_width,
                                d_height = padding_height \<rparr> \<rparr>)"

section \<open>Strength predictor (\<^verbatim>\<open>strength_predictor.py\<close>)\<close>

record material_props =
  base_strength :: real
  tensile_strength :: real
  compression :: real
  durability :: real

definition recycled_cardboard_props :: material_props where
  "recycled_cardboard_props =
     \<lparr> base_strength = 0.75, tensile_strength = 150, compression = 0.70, durability = 0.80 \<rparr>"

definition material_properties :: "string \<rightharpoonup> material_props" where
  "material_properties = map_of
     [ (''Recycled Cardboard'', recycled_cardboard_props),
       (''Double-Wall Corrugated Cardboard'',
          \<lparr> base_strength = 0.95, tensile_strength = 250, compression = 0.92, durability = 0.88 \<rparr>),
       (''100% Recycled Kraft Paper'',
          \<lparr> base_strength = 0.65, tensile_strength = 120, compression = 0.60, durability = 0.70 \<rparr>),
       (''Recycled Cardboard with Biodegradable Foam'',
          \<lparr> base_strength = 0.85, tensile_strength = 180, compression = 0.85, durability = 0.90 \<rparr>),
       (''Food-Grade Biodegradable Cardboard'',
          \<lparr> base_strength = 0.80, tensile_strength = 160, compression = 0.78, durability = 0.82 \<rparr>),
       (''Foam Insert Box'',
          \<lparr> base_strength = 0.85, tensile_strength = 140, compression = 0.88, durability = 0.85 \<rparr>) ]"

text \<open>
  \<^verbatim>\<open>self.material_properties.get(material_name, self.material_properties['Recycled Cardboard'])\<close>
\<close>

definition get_material_props :: "string \<Rightarrow> material_props" where
  "get_material_props material_name =
     (case material_properties material_name of
        Some p \<Rightarrow> p
      | None \<Rightarrow> recycled_cardboard_props)"

text \<open>
  The result dictionary of \<^verbatim>\<open>predict\<close>. Its key \<^verbatim>\<open>'durability'\<close> is the field
  \<open>durability_score\<close> here, since \<open>durability\<close> already names the table column.
\<close>

record strength_analysis =
  volume_weight_ratio :: real
  geometry_rating :: string
  material_rating :: string
  load_distribution :: string

record strength_report =
  strength :: int
  durability_score :: int
  compression_resistance :: int
  overall_rating :: string
  needs_reinforcement :: bool
  reinforcement_reason :: "string option"
  analysis :: strength_analysis

text \<open>
  The local variables of \<^verbatim>\<open>predict\<close>, in the order the method computes them
  (\<^verbatim>\<open>surface_area\<close> is computed and never read; it is left out).
\<close>

definition vw_ratio :: "'a dims_scheme \<Rightarrow> real \<Rightarrow> real" where
  "vw_ratio dimensions weight =
     (let volume = d_length dimensions * d_width dimensions * d_height dimensions;
          weight_grams = weight * 1000
      in if weight_grams > 0 then volume / weight_grams else 0)"

definition strength_factor :: "real \<Rightarrow> real" where
  "strength_factor r =
     (if r > 500 then 0.98
      else if r > 300 then 0.92
      else if r > 150 then 0.85
      else if r > 75 then 0.75
      else 0.65)"

definition fragility_factor :: "int \<Rightarrow> real \<Rightarrow> real" where
  "fragility_factor fragility base =
     (if fragility \<ge> 4 \<and> base < 0.8 then 0.90
      else if fragility \<ge> 4 then 1.05
      else if fragility \<le> 2 then 1.02
      else 1.0)"

definition aspect_ratio :: "'a dims_scheme \<Rightarrow> real" where
  "aspect_ratio dimensions =
     (let max_dim = max (max (d_length dimensions) (d_width dimensions)) (d_height dimensions);
          min_dim = min (min (d_length dimensions) (d_width dimensions)) (d_height dimensions)
      in if min_dim > 0 then max_dim / min_dim else 10)"

definition geometry_factor :: "real \<Rightarrow> real" where
  "geometry_factor a =
     (if a < 2 then 1.05
      else if a < 3 then 1.0
      else 0.92)"

definition get_rating :: "int \<Rightarrow> string" where
  "get_rating score =
     (if score \<ge> 90 then ''Excellent''
      else if score \<ge> 80 then ''Very Good''
      else if score \<ge> 70 then ''Good''
      else if score \<ge> 60 then ''Adequate''
      else ''Needs Improvement'')"

definition rate_material :: "real \<Rightarrow> string" where
  "rate_material base =
     (if base \<ge> 0.9 then ''Premium''
      else if base \<ge> 0.8 then ''High Quality''
      else if base \<ge> 0.7 then ''Standard''
      else ''Economy'')"

definition reinforcement :: "int \<Rightarrow> real \<Rightarrow> int \<Rightarrow> bool \<times> string option" where
  "reinforcement strength_score weight fragility =
     (if strength_score < 70 then (True, Some ''Low overall strength score'')
      else if weight > 5 \<and> strength_score < 80
        then (True, Some ''Heavy product requires stronger material'')
      else if fragility \<ge> 4 \<and> strength_score < 85
        then (True, Some ''Fragile product requires better protection'')
      else (False, None))"

definition predict :: "'a dims_scheme \<Rightarrow> string \<Rightarrow> real \<Rightarrow> int \<Rightarrow> strength_report" where
  "predict dimensions material_name weight fragility =
     (let material_props = get_material_props material_name;
          base = base_strength material_props;
          compression_factor = compression material_props;
          durability_factor = durability material_props;
          ratio = vw_ratio dimensions weight;
          sf = strength_factor ratio;
          ff = fragility_factor fragility base;
          gf = geometry_factor (aspect_ratio dimensions);
          raw_strength = base * sf * ff * gf;
          strength_score = min 98 (max 60 (py_int (raw_strength * 100)));
          durability_sc = min 98 (max 60 (py_int (durability_factor * sf * 100)));
          compression_score = min 98 (max 65 (py_int (compression_factor * gf * 100)));
          (needs, reason) = reinforcement strength_score weight fragility
      in \<lparr> strength = strength_score,
           durability_score = durability_sc,
           compression_resistance = compression_score,
           overall_rating = get_rating strength_score,
           needs_reinforcement = needs,
           reinforcement_reason = reason,
           analysis =
             \<lparr> volume_weight_ratio = ratio,
               geometry_rating =
                 (if gf > 1 then ''Excellent'' else if gf = 1 then ''Good'' else ''Fair''),
               material_rating = rate_material base,
               load_distribution =
                 (if sf > 0.85 then ''Optimal''
                  else if sf > 0.75 then ''Adequate''
                  else ''Needs Improvement'') \<rparr> \<rparr>)"

record drop_test =
  will_survive :: bool
  safety_margin :: real
  impact_energy :: real
  material_capacity :: real
  recommendation :: string

text \<open>
  \<^verbatim>\<open>predict_drop_test\<close> first calls \<^verbatim>\<open>predict\<close> (which cannot raise) and discards
  nothing else of it; it then reads the table with \<^verbatim>\<open>.get(material_name)\<close>, without
  a default, and subscripts the result: on a missing name that is
  \<^verbatim>\<open>None['tensile_strength']\<close>, a \<^verbatim>\<open>TypeError\<close>.
\<close>

definition predict_drop_test ::
  "'a dims_scheme \<Rightarrow> string \<Rightarrow> real \<Rightarrow> real \<Rightarrow> py_error + drop_test" where
  "predict_drop_test dimensions material_name weight height_cm =
     (let strength_scores = predict dimensions material_name weight 5;
          g = 9.81;
          height_m = height_cm / 100;
          energy = weight * g * height_m
      in case material_properties material_name of
           None \<Rightarrow> Inl TypeError
         | Some material_props \<Rightarrow>
             (let max_impact = tensile_strength material_props * 0.5;
                  survive = energy < max_impact
              in if max_impact = 0 then Inl ZeroDivisionError
                 else
                   (let margin = ((max_impact - energy) / max_impact) * 100
                    in Inr \<lparr> will_survive = survive,
                             safety_margin = max 0 margin,
                             impact_energy = energy,
                             material_capacity = max_impact,
                             recommendation =
                               (if survive then ''Safe for transport''
                                else ''Requires additional protection'') \<rparr>)))"

section \<open>Sustainability analyzer (\<^verbatim>\<open>sustainability_analyzer.py\<close>)\<close>

text \<open>
  \<^verbatim>\<open>analyze\<close> reads its \<^verbatim>\<open>material\<close> argument only through \<^verbatim>\<open>.get\<close> with a
  default, so each key it reads may be absent: the argument is a record of options.
\<close>

record env_view =
  ev_co2_per_kg :: "real option"
  ev_water_usage_liters :: "real option"
  ev_energy_kwh :: "real option"

record material_view =
  mv_thickness :: "string option"
  mv_environmental_impact :: "env_view option"
  mv_sustainability_score :: "real option"

definition get_or :: "'a option \<Rightarrow> 'a \<Rightarrow> 'a" where
  "get_or v d = (case v of Some x \<Rightarrow> x | None \<Rightarrow> d)"

record traditional_metrics_t =
  over_packaging_factor :: real
  material_waste_percentage :: real
  co2_per_kg_cardboard :: real
  water_per_kg_cardboard :: real
  energy_per_kg_cardboard :: real

definition traditional_metrics :: traditional_metrics_t where
  "traditional_metrics =
     \<lparr> over_packaging_factor = 1.6,
       material_waste_percentage = 35,
       co2_per_kg_cardboard = 1.2,
       water_per_kg_cardboard = 40,
       energy_per_kg_cardboard = 5.0 \<rparr>"

definition cardboard_density :: real where
  "cardboard_density = 700"

definition thickness_factors :: "string \<rightharpoonup> real" where
  "thickness_factors = map_of
     [ (''2mm'', 0.003), (''3mm'', 0.005), (''4mm'', 0.006), (''5mm'', 0.008),
       (''6mm'', 0.010), (''7mm'', 0.012), (''8mm'', 0.014) ]"

text \<open>\<^verbatim>\<open>self.thickness_factors.get(material.get('thickness', '3mm'), 0.005)\<close>\<close>

definition thickness_factor :: "material_view \<Rightarrow> real" where
  "thickness_factor material =
     get_or (thickness_factors (get_or (mv_thickness material) ''3mm'')) 0.005"

definition calculate_surface_area :: "'a dims_scheme \<Rightarrow> real" where
  "calculate_surface_area dimensions =
     (let l = d_length dimensions; w = d_width dimensions; h = d_height dimensions
      in 2 * (l * w + w * h + h * l))"

definition calculate_transport_efficiency :: "real \<Rightarrow> real \<Rightarrow> py_error + real" where
  "calculate_transport_efficiency traditional_vol optimized_vol =
     (let truck_capacity = 80000000
      in if traditional_vol = 0 then Inl ZeroDivisionError
         else if optimized_vol = 0 then Inl ZeroDivisionError
         else
           (let traditional_units = truck_capacity / traditional_vol;
                optimized_units = truck_capacity / optimized_vol
            in if traditional_units = 0 then Inl ZeroDivisionError
               else Inr (max 0 (min 100
                      ((optimized_units - traditional_units) / traditional_units * 100)))))"

definition calculate_sustainability_score :: "real \<Rightarrow> real \<Rightarrow> real \<Rightarrow> real \<Rightarrow> real" where
  "calculate_sustainability_score volume_red material_red co2_red material_score =
     (let score = volume_red * 0.25 + material_red * 0.25 + co2_red * 0.25
                  + material_score * 0.25
      in min 100 (max 0 score))"

definition get_environmental_rating :: "real \<Rightarrow> string" where
  "get_environmental_rating score =
     (if score \<ge> 90 then ''Exceptional''
      else if score \<ge> 80 then ''Excellent''
      else if score \<ge> 70 then ''Very Good''
      else if score \<ge> 60 then ''Good''
      else if score \<ge> 50 then ''Fair''
      else ''Needs Improvement'')"

text \<open>
  The result dictionaries of \<^verbatim>\<open>analyze\<close>. Keys that would clash with another
  record's field are renamed: \<^verbatim>\<open>'sustainability_score'\<close> is
  \<open>overall_sustainability_score\<close>, \<^verbatim>\<open>'energy_kwh'\<close> of the details is
  \<open>energy_used_kwh\<close>, \<^verbatim>\<open>'annual_impact'\<close> is \<open>annual\<close> and
  \<^verbatim>\<open>'equivalent_metrics'\<close> is \<open>equivalent\<close>; the two entries of
  \<^verbatim>\<open>'details'\<close> are fields of the report itself.
\<close>

record equivalent_metrics =
  cars_off_road :: real
  trees_planted :: real
  homes_powered_days :: real

record annual_impact =
  units_per_year :: int
  total_co2_saved_kg :: real
  total_co2_saved_tons :: real
  total_water_saved_liters :: real
  total_energy_saved_kwh :: real
  total_material_saved_kg :: real
  total_material_saved_tons :: real
  equivalent :: equivalent_metrics

definition calculate_annual_impact :: "real \<Rightarrow> real \<Rightarrow> real \<Rightarrow> real \<Rightarrow> annual_impact" where
  "calculate_annual_impact co2_saved water_saved energy_saved material_saved =
     (let annual_units = 10000
      in \<lparr> units_per_year = 10000,
           total_co2_saved_kg = co2_saved * annual_units,
           total_co2_saved_tons = (co2_saved * annual_units) / 1000,
           total_water_saved_liters = water_saved * annual_units,
           total_energy_saved_kwh = energy_saved * annual_units,
           total_material_saved_kg = material_saved * annual_units,
           total_material_saved_tons = (material_saved * annual_units) / 1000,
           equivalent =
             \<lparr> cars_off_road = (co2_saved * annual_units) / 4600,
               trees_planted = (co2_saved * annual_units) / 21,
               homes_powered_days = (energy_saved * annual_units) / 30 \<rparr> \<rparr>)"

record packaging_details =
  volume_cm3 :: real
  material_kg :: real
  co2_kg :: real
  water_liters :: real
  energy_used_kwh :: real

record sustainability_report =
  volume_reduction :: real
  material_saved_kg :: real
  material_reduction_percentage :: real
  co2_saved_kg :: real
  co2_reduction_percentage :: real
  water_saved_liters :: real
  energy_saved_kwh :: real
  trees_saved :: real
  transport_efficiency_gain :: real
  overall_sustainability_score :: real
  environmental_rating :: string
  traditional_packaging :: packaging_details
  optimized_packaging :: packaging_details
  annual :: annual_impact

text \<open>
  Line 79 divides by \<^verbatim>\<open>traditional_volume\<close> with no guard; the two later percentages
  are guarded by \<^verbatim>\<open>if ... > 0 else 0\<close>. \<^verbatim>\<open>product_weight\<close> is not read.
\<close>

definition analyze ::
  "'a dims_scheme \<Rightarrow> 'b dims_scheme \<Rightarrow> material_view \<Rightarrow> real \<Rightarrow> py_error + sustainability_report"
  where
  "analyze original_dims optimized_dims material product_weight =
     (let product_volume =
            d_length original_dims * d_width original_dims * d_height original_dims;
          traditional_volume = product_volume * over_packaging_factor traditional_metrics;
          optimized_volume =
            d_length optimized_dims * d_width optimized_dims * d_height optimized_dims
      in if traditional_volume = 0 then Inl ZeroDivisionError
         else
           (let volume_red =
                  max 0 (min 95
                    ((traditional_volume - optimized_volume) / traditional_volume * 100));
                traditional_area = calculate_surface_area
                  \<lparr> d_length = d_length original_dims + 10,
                    d_width = d_width original_dims + 10,
                    d_height = d_height original_dims + 10 \<rparr>;
                optimized_area = calculate_surface_area optimized_dims;
                tf = thickness_factor material;
                traditional_material_weight =
                  (traditional_area / 10000) * cardboard_density * tf;
                optimized_material_weight =
                  (optimized_area / 10000) * cardboard_density * tf;
                material_saved = traditional_material_weight - optimized_material_weight;
                material_reduction_pct =
                  (if traditional_material_weight > 0
                   then material_saved / traditional_material_weight * 100 else 0);
                material_env = get_or (mv_environmental_impact material)
                  \<lparr> ev_co2_per_kg = None, ev_water_usage_liters = None, ev_energy_kwh = None \<rparr>;
                co2_per_kg = get_or (ev_co2_per_kg material_env) 1.0;
                traditional_co2 =
                  traditional_material_weight * co2_per_kg_cardboard traditional_metrics;
                optimized_co2 = optimized_material_weight * co2_per_kg;
                co2_saved = traditional_co2 - optimized_co2;
                co2_reduction_pct =
                  (if traditional_co2 > 0 then co2_saved / traditional_co2 * 100 else 0);
                water_per_kg = get_or (ev_water_usage_liters material_env) 30;
                traditional_water =
                  traditional_material_weight * water_per_kg_cardboard traditional_metrics;
                optimized_water = optimized_material_weight * water_per_kg;
                water_saved = traditional_water - optimized_water;
                energy_per_kg = get_or (ev_energy_kwh material_env) 4.0;
                traditional_energy =
                  traditional_material_weight * energy_per_kg_cardboard traditional_metrics;
                optimized_energy = optimized_material_weight * energy_per_kg;
                energy_saved = traditional_energy - optimized_energy
            in case calculate_transport_efficiency traditional_volume optimized_volume of
                 Inl e \<Rightarrow> Inl e
               | Inr transport_efficiency \<Rightarrow>
                   (let score = calculate_sustainability_score volume_red
                          material_reduction_pct co2_reduction_pct
                          (get_or (mv_sustainability_score material) 80)
                    in Inr \<lparr> volume_reduction = volume_red,
                             material_saved_kg = material_saved,
                             material_reduction_percentage = material_reduction_pct,
                             co2_saved_kg = co2_saved,
                             co2_reduction_percentage = co2_reduction_pct,
                             water_saved_liters = water_saved,
                             energy_saved_kwh = energy_saved,
                             trees_saved = material_saved / 100,
                             transport_efficiency_gain = transport_efficiency,
                             overall_sustainability_score = score,
                             environmental_rating = get_environmental_rating score,
                             traditional_packaging =
                               \<lparr> volume_cm3 = traditional_volume,
                                 material_kg = traditional_material_weight,
                                 co2_kg = traditional_co2,
                                 water_liters = traditional_water,
                                 energy_used_kwh = traditional_energy \<rparr>,
                             optimized_packaging =
                               \<lparr> volume_cm3 = optimized_volume,
                                 material_kg = optimized_material_weight,
                                 co2_kg = optimized_co2,
                                 water_liters = optimized_water,
                                 energy_used_kwh = optimized_energy \<rparr>,
                             annual = calculate_annual_impact co2_saved water_saved
                                        energy_saved material_saved \<rparr>)))"

section \<open>Material selector (\<^verbatim>\<open>material_selector.py\<close>)\<close>

record env_impact =
  co2_per_kg :: real
  water_usage_liters :: real
  energy_kwh :: real

record material =
  name :: string
  thickness :: string
  recyclable :: bool
  biodegradable :: bool
  cost_factor :: real
  sustainability_score :: real
  strength_rating :: string
  best_for :: "string list"
  weight_limit :: real
  fragility_max :: int
  environmental_impact :: env_impact

record category_prefs =
  priority :: string
  preferred_materials :: "string list"
  min_strength :: string

text \<open>
  The state of a \<^verbatim>\<open>MaterialSelector\<close> object: its two dictionaries, in declaration
  order (a Python dictionary iterates in insertion order, and its keys are distinct).
\<close>

record selector =
  materials :: "(string \<times> material) list"
  category_priorities :: "(string \<times> category_prefs) list"

definition recycled_cardboard :: material where
  "recycled_cardboard =
     \<lparr> name = ''Recycled Cardboard'',
       thickness = ''3mm'',
       recyclable = True,
       biodegradable = True,
       cost_factor = 0.9,
       sustainability_score = 95,
       strength_rating = ''Medium'',
       best_for = [''books'', ''apparel'', ''toys''],
       weight_limit = 3.0,
       fragility_max = 3,
       environmental_impact =
         \<lparr> co2_per_kg = 0.8, water_usage_liters = 20, energy_kwh = 2.5 \<rparr> \<rparr>"

definition double_wall_corrugated :: material where
  "double_wall_corrugated =
     \<lparr> name = ''Double-Wall Corrugated Cardboard'',
       thickness = ''7mm'',
       recyclable = True,
       biodegradable = True,
       cost_factor = 1.5,
       sustainability_score = 82,
       strength_rating = ''High'',
       best_for = [''heavy_items'', ''machinery''],
       weight_limit = 15.0,
       fragility_max = 4,
       environmental_impact =
         \<lparr> co2_per_kg = 1.2, water_usage_liters = 35, energy_kwh = 4.0 \<rparr> \<rparr>"

definition kraft_paper :: material where
  "kraft_paper =
     \<lparr> name = ''100% Recycled Kraft Paper'',
       thickness = ''2mm'',
       recyclable = True,
       biodegradable = True,
       cost_factor = 0.8,
       sustainability_score = 98,
       strength_rating = ''Low-Medium'',
       best_for = [''lightweight'', ''apparel'', ''documents''],
       weight_limit = 1.5,
       fragility_max = 2,
       environmental_impact =
         \<lparr> co2_per_kg = 0.6, water_usage_liters = 15, energy_kwh = 2.0 \<rparr> \<rparr>"

definition foam_insert_cardboard :: material where
  "foam_insert_cardboard =
     \<lparr> name = ''Recycled Cardboard with Biodegradable Foam'',
       thickness = ''5mm'',
       recyclable = True,
       biodegradable = True,
       cost_factor = 1.3,
       sustainability_score = 88,
       strength_rating = ''High'',
       best_for = [''electronics'', ''fragile_items''],
       weight_limit = 5.0,
       fragility_max = 5,
       environmental_impact =
         \<lparr> co2_per_kg = 1.0, water_usage_liters = 25, energy_kwh = 3.2 \<rparr> \<rparr>"

definition food_grade_cardboard :: material where
  "food_grade_cardboard =
     \<lparr> name = ''Food-Grade Biodegradable Cardboard'',
       thickness = ''4mm'',
       recyclable = True,
       biodegradable = True,
       cost_factor = 1.1,
       sustainability_score = 92,
       strength_rating = ''Medium-High'',
       best_for = [''food'', ''cosmetics''],
       weight_limit = 4.0,
       fragility_max = 3,
       environmental_impact =
         \<lparr> co2_per_kg = 0.9, water_usage_liters = 22, energy_kwh = 2.8 \<rparr> \<rparr>"

definition molded_pulp :: material where
  "molded_pulp =
     \<lparr> name = ''Molded Pulp (Recycled Paper)'',
       thickness = ''6mm'',
       recyclable = True,
       biodegradable = True,
       cost_factor = 1.2,
       sustainability_score = 96,
       strength_rating = ''Medium-High'',
       best_for = [''electronics'', ''eggs'', ''produce''],
       weight_limit = 3.5,
       fragility_max = 4,
       environmental_impact =
         \<lparr> co2_per_kg = 0.7, water_usage_liters = 18, energy_kwh = 2.3 \<rparr> \<rparr>"

definition honeycomb_cardboard :: material where
  "honeycomb_cardboard =
     \<lparr> name = ''Honeycomb Cardboard'',
       thickness = ''8mm'',
       recyclable = True,
       biodegradable = True,
       cost_factor = 1.6,
       sustainability_score = 85,
       strength_rating = ''Very High'',
       best_for = [''heavy_items'', ''furniture'', ''machinery''],
       weight_limit = 20.0,
       fragility_max = 4,
       environmental_impact =
         \<lparr> co2_per_kg = 1.1, water_usage_liters = 30, energy_kwh = 3.8 \<rparr> \<rparr>"

text \<open>\<^verbatim>\<open>MaterialSelector.__init__\<close>\<close>

definition MaterialSelector :: selector where
  "MaterialSelector =
     \<lparr> materials =
     [
       (''recycled_cardboard'', recycled_cardboard),
       (''double_wall_corrugated'', double_wall_corrugated),
       (''kraft_paper'', kraft_paper),
       (''foam_insert_cardboard'', foam_insert_cardboard),
       (''food_grade_cardboard'', food_grade_cardboard),
       (''molded_pulp'', molded_pulp),
       (''honeycomb_cardboard'', honeycomb_cardboard) ],
       category_priorities =
     [
       (''electronics'', \<lparr> priority = ''protection'', preferred_materials = [''foam_insert_cardboard'', ''molded_pulp''],
          min_strength = ''High'' \<rparr>),
       (''food'', \<lparr> priority = ''safety'', preferred_materials = [''food_grade_cardboard'', ''molded_pulp''],
          min_strength = ''Medium'' \<rparr>),
       (''cosmetics'', \<lparr> priority = ''presentation'', preferred_materials = [''food_grade_cardboard'', ''kraft_paper''],
          min_strength = ''Medium'' \<rparr>),
       (''apparel'', \<lparr> priority = ''cost'', preferred_materials = [''kraft_paper'', ''recycled_cardboard''],
          min_strength = ''Low-Medium'' \<rparr>),
       (''books'', \<lparr> priority = ''cost'', preferred_materials = [''recycled_cardboard'', ''kraft_paper''],
          min_strength = ''Medium'' \<rparr>),
       (''toys'', \<lparr> priority = ''safety'', preferred_materials = [''recycled_cardboard'', ''food_grade_cardboard''],
          min_strength = ''Medium'' \<rparr>),
       (''other'', \<lparr> priority = ''balance'', preferred_materials = [''recycled_cardboard''],
          min_strength = ''Medium'' \<rparr>) ] \<rparr>"

text \<open>\<^verbatim>\<open>str.lower\<close>, on the ASCII letters.\<close>

definition lower_char :: "char \<Rightarrow> char" where
  "lower_char c =
     (case map_of (zip ''ABCDEFGHIJKLMNOPQRSTUVWXYZ'' ''abcdefghijklmnopqrstuvwxyz'') c of
        Some d \<Rightarrow> d
      | None \<Rightarrow> c)"

definition lower :: "string \<Rightarrow> string" where
  "lower s = map lower_char s"

text \<open>
  \<^verbatim>\<open>category.lower() if category else 'other'\<close>: \<^verbatim>\<open>None\<close> and the empty string are
  both falsy.
\<close>

definition normalize_category :: "string option \<Rightarrow> string" where
  "normalize_category category =
     (case category of
        None \<Rightarrow> ''other''
      | Some c \<Rightarrow> if c = [] then ''other'' else lower c)"

text \<open>
  \<^verbatim>\<open>self.category_priorities.get(category, self.category_priorities['other'])\<close>: the
  default is evaluated before the lookup.
\<close>

definition get_cat_prefs :: "selector \<Rightarrow> string \<Rightarrow> py_error + category_prefs" where
  "get_cat_prefs self category =
     (case map_of (category_priorities self) ''other'' of
        None \<Rightarrow> Inl KeyError
      | Some d \<Rightarrow> Inr (get_or (map_of (category_priorities self) category) d))"

text \<open>An entry of \<^verbatim>\<open>material_scores\<close>; its key \<^verbatim>\<open>'material'\<close> is the field \<open>mat\<close>.\<close>

record scored =
  score :: real
  reasons :: "string list"
  mat :: material

text \<open>
  Criterion 1. \<open>None\<close> is the \<^verbatim>\<open>continue\<close> of the \<^verbatim>\<open>else\<close> branch: the material is
  skipped and never reaches \<^verbatim>\<open>material_scores\<close>.
\<close>

definition weight_compatibility ::
  "real \<Rightarrow> material \<Rightarrow> py_error + (real \<times> string list) option" where
  "weight_compatibility weight m =
     (if weight \<le> weight_limit m then
        (if weight_limit m = 0 then Inl ZeroDivisionError
         else
           (let weight_ratio = weight / weight_limit m
            in if weight_ratio < 0.5 then Inr (Some (30, [''Excellent weight capacity'']))
               else if weight_ratio < 0.75 then Inr (Some (25, [''Good weight capacity'']))
               else Inr (Some (20, [''Adequate weight capacity'']))))
      else Inr None)"

definition fragility_handling :: "int \<Rightarrow> material \<Rightarrow> real \<times> string list" where
  "fragility_handling fragility m =
     (if fragility \<le> fragility_max m then
        (if fragility \<ge> 4 \<and> strength_rating m \<in> set [''High'', ''Very High'']
           then (25, [''Excellent protection for fragile items''])
         else if fragility \<ge> 4 then (15, [''Moderate protection for fragile items''])
         else (20, [''Suitable protection level'']))
      else (5, [''May not provide sufficient protection'']))"

definition sustainability_points :: "material \<Rightarrow> real \<times> string list" where
  "sustainability_points m =
     ((sustainability_score m / 100) * 20,
      (if sustainability_score m \<ge> 95 then [''Exceptional sustainability'']
       else if sustainability_score m \<ge> 85 then [''High sustainability'']
       else []))"

text \<open>\<^verbatim>\<open>[self.materials[k] for k in cat_prefs['preferred_materials']]\<close>\<close>

fun lookup_all :: "(string \<times> material) list \<Rightarrow> string list \<Rightarrow> py_error + material list" where
  "lookup_all ms [] = Inr []"
| "lookup_all ms (k # ks) =
     (case map_of ms k of
        None \<Rightarrow> Inl KeyError
      | Some m \<Rightarrow>
          (case lookup_all ms ks of
             Inl e \<Rightarrow> Inl e
           | Inr r \<Rightarrow> Inr (m # r)))"

definition category_match ::
  "selector \<Rightarrow> category_prefs \<Rightarrow> string \<Rightarrow> string \<Rightarrow> material
     \<Rightarrow> py_error + (real \<times> string list)" where
  "category_match self cat_prefs category material_key m =
     (if material_key \<in> set (preferred_materials cat_prefs)
        then Inr (15, [''Optimized for '' @ category @ '' category''])
      else
        (case lookup_all (materials self) (preferred_materials cat_prefs) of
           Inl e \<Rightarrow> Inl e
         | Inr preferred \<Rightarrow>
             if m \<in> set preferred
               then Inr (10, [''Suitable for '' @ category @ '' category''])
             else Inr (5, [])))"

definition recyclability :: "bool \<Rightarrow> material \<Rightarrow> real \<times> string list" where
  "recyclability recyclable_priority m =
     (if recyclable_priority \<and> recyclable m then (10, [''Fully recyclable''])
      else if recyclable m then (7, [])
      else (0, []))"

definition cost_efficiency :: "material \<Rightarrow> real \<times> string list" where
  "cost_efficiency m =
     (if cost_factor m \<le> 1.0 then (10, [''Cost-effective''])
      else if cost_factor m \<le> 1.3 then (7, [''Moderate cost''])
      else (4, [''Premium pricing'']))"

text \<open>One iteration of the scoring loop; \<open>Inr None\<close> is a skipped material.\<close>

definition score_material ::
  "selector \<Rightarrow> category_prefs \<Rightarrow> string \<Rightarrow> real \<Rightarrow> int \<Rightarrow> bool \<Rightarrow> string \<Rightarrow> material
     \<Rightarrow> py_error + scored option" where
  "score_material self cat_prefs category weight fragility recyclable_priority material_key m =
     (case weight_compatibility weight m of
        Inl e \<Rightarrow> Inl e
      | Inr None \<Rightarrow> Inr None
      | Inr (Some (p1, r1)) \<Rightarrow>
          (let (p2, r2) = fragility_handling fragility m;
               (p3, r3) = sustainability_points m
           in case category_match self cat_prefs category material_key m of
                Inl e \<Rightarrow> Inl e
              | Inr (p4, r4) \<Rightarrow>
                  (let (p5, r5) = recyclability recyclable_priority m;
                       (p6, r6) = cost_efficiency m
                   in Inr (Some \<lparr> score = 0 + p1 + p2 + p3 + p4 + p5 + p6,
                                   reasons = r1 @ r2 @ r3 @ r4 @ r5 @ r6,
                                   mat = m \<rparr>))))"

fun score_materials ::
  "selector \<Rightarrow> category_prefs \<Rightarrow> string \<Rightarrow> real \<Rightarrow> int \<Rightarrow> bool \<Rightarrow> (string \<times> material) list
     \<Rightarrow> py_error + (string \<times> scored) list" where
  "score_materials self cat_prefs category weight fragility rp [] = Inr []"
| "score_materials self cat_prefs category weight fragility rp ((k, m) # rest) =
     (case score_material self cat_prefs category weight fragility rp k m of
        Inl e \<Rightarrow> Inl e
      | Inr None \<Rightarrow> score_materials self cat_prefs category weight fragility rp rest
      | Inr (Some sc) \<Rightarrow>
          (case score_materials self cat_prefs category weight fragility rp rest of
             Inl e \<Rightarrow> Inl e
           | Inr r \<Rightarrow> Inr ((k, sc) # r)))"

text \<open>
  \<^verbatim>\<open>max(material_scores, key=...)\<close>: \<^verbatim>\<open>ValueError\<close> on an empty dictionary, otherwise
  the first key whose score no later key exceeds.
\<close>

fun max_from :: "string \<times> scored \<Rightarrow> (string \<times> scored) list \<Rightarrow> string \<times> scored" where
  "max_from best [] = best"
| "max_from best (x # xs) =
     max_from (if score (snd x) > score (snd best) then x else best) xs"

definition py_max_key :: "(string \<times> scored) list \<Rightarrow> py_error + string" where
  "py_max_key material_scores =
     (case material_scores of
        [] \<Rightarrow> Inl ValueError
      | x # xs \<Rightarrow> Inr (fst (max_from x xs)))"

record alternative =
  alt_name :: string
  alt_score :: real
  alt_thickness :: string
  alt_cost_factor :: real
  alt_sustainability_score :: real

text \<open>
  \<^verbatim>\<open>sorted(..., key=score, reverse=True)\<close> is stable: entries of equal score keep their
  order, as a stable sort on the negated score does.
\<close>

fun alternatives_loop ::
  "string \<Rightarrow> nat \<Rightarrow> alternative list \<Rightarrow> (string \<times> scored) list \<Rightarrow> alternative list" where
  "alternatives_loop selected_key count alts [] = alts"
| "alternatives_loop selected_key count alts ((material_key, d) # rest) =
     alternatives_loop selected_key count
       (if material_key \<noteq> selected_key \<and> length alts < count
          then alts @ [\<lparr> alt_name = name (mat d),
                          alt_score = score d,
                          alt_thickness = thickness (mat d),
                          alt_cost_factor = cost_factor (mat d),
                          alt_sustainability_score = sustainability_score (mat d) \<rparr>]
        else alts)
       rest"

definition get_alternatives ::
  "(string \<times> scored) list \<Rightarrow> string \<Rightarrow> nat \<Rightarrow> alternative list" where
  "get_alternatives material_scores selected_key count =
     (let sorted_materials = sort_key (\<lambda>x. - score (snd x)) material_scores
      in alternatives_loop selected_key count [] sorted_materials)"

record selection = material +
  selection_score :: real
  selection_reasons :: "string list"
  alternatives :: "alternative list"

text \<open>\<^verbatim>\<open>best_match['material'].copy()\<close> with the three keys added to the copy.\<close>

definition copy_with :: "material \<Rightarrow> real \<Rightarrow> string list \<Rightarrow> alternative list \<Rightarrow> selection" where
  "copy_with m sc rs alts =
     \<lparr> name = name m,
       thickness = thickness m,
       recyclable = recyclable m,
       biodegradable = biodegradable m,
       cost_factor = cost_factor m,
       sustainability_score = sustainability_score m,
       strength_rating = strength_rating m,
       best_for = best_for m,
       weight_limit = weight_limit m,
       fragility_max = fragility_max m,
       environmental_impact = environmental_impact m,
       selection_score = sc,
       selection_reasons = rs,
       alternatives = alts \<rparr>"

definition select ::
  "selector \<Rightarrow> string option \<Rightarrow> real \<Rightarrow> int \<Rightarrow> bool \<Rightarrow> py_error + selection" where
  "select self category0 weight fragility recyclable_priority =
     (let category = normalize_category category0
      in case get_cat_prefs self category of
           Inl e \<Rightarrow> Inl e
         | Inr cat_prefs \<Rightarrow>
             (case score_materials self cat_prefs category weight fragility
                     recyclable_priority (materials self) of
                Inl e \<Rightarrow> Inl e
              | Inr material_scores \<Rightarrow>
                  (case py_max_key material_scores of
                     Inl e \<Rightarrow> Inl e
                   | Inr best_material_key \<Rightarrow>
                       (case map_of material_scores best_material_key of
                          None \<Rightarrow> Inl KeyError
                        | Some best_match \<Rightarrow>
                            Inr (copy_with (mat best_match) (score best_match)
                                   (reasons best_match)
                                   (get_alternatives material_scores best_material_key 2))))))"

text \<open>The keys \<^verbatim>\<open>analyze\<close> reads from a selector result.\<close>

definition material_view_of :: "'a material_scheme \<Rightarrow> material_view" where
  "material_view_of m =
     \<lparr> mv_thickness = Some (thickness m),
       mv_environmental_impact =
         Some \<lparr> ev_co2_per_kg = Some (co2_per_kg (environmental_impact m)),
                ev_water_usage_liters = Some (water_usage_liters (environmental_impact m)),
                ev_energy_kwh = Some (energy_kwh (environmental_impact m)) \<rparr>,
       mv_sustainability_score = Some (sustainability_score m) \<rparr>"

subsection \<open>The score formulas as the specification words them\<close>

text \<open>
  Section 4.3 of the specification gives each score as
  \<open>clamp (round (factor product \<times> 100), lo, hi)\<close>. The three definitions below follow
  those words, with rounding to the nearest integer; they are compared with
  \<open>predict\<close> further down.
\<close>

definition clamp :: "int \<Rightarrow> int \<Rightarrow> int \<Rightarrow> int" where
  "clamp x lo hi = min hi (max lo x)"

definition spec_strength_score :: "'a dims_scheme \<Rightarrow> string \<Rightarrow> real \<Rightarrow> int \<Rightarrow> int" where
  "spec_strength_score dimensions material_name weight fragility =
     (let p = get_material_props material_name;
          raw = base_strength p * strength_factor (vw_ratio dimensions weight)
                * fragility_factor fragility (base_strength p)
                * geometry_factor (aspect_ratio dimensions)
      in clamp (round (raw * 100)) 60 98)"

definition spec_durability_score :: "'a dims_scheme \<Rightarrow> string \<Rightarrow> real \<Rightarrow> int" where
  "spec_durability_score dimensions material_name weight =
     clamp (round (durability (get_material_props material_name)
                   * strength_factor (vw_ratio dimensions weight) * 100)) 60 98"

definition spec_compression_score :: "'a dims_scheme \<Rightarrow> string \<Rightarrow> int" where
  "spec_compression_score dimensions material_name =
     clamp (round (compression (get_material_props material_name)
                   * geometry_factor (aspect_ratio dimensions) * 100)) 65 98"

subsection \<open>The method on a heap: what \<^verbatim>\<open>select\<close> reads and writes\<close>

text \<open>
  The definitions above treat a material dictionary as a value. In Python it is an
  object, and \<^verbatim>\<open>self.materials\<close> holds references to seven such objects. To see what
  a call does to them, the method is written once more over a heap: a list of dictionary
  objects, the address of an object being its index. A dictionary object has the eleven
  keys of a material and, when they have been assigned, the three keys that
  \<^verbatim>\<open>select\<close> adds to its result.
\<close>

type_synonym addr = nat

record dict_object =
  items :: material
  added_selection_score :: "real option"
  added_selection_reasons :: "string list option"
  added_alternatives :: "alternative list option"

type_synonym heap = "dict_object list"

text \<open>
  A Python reference always denotes a live object. The heap is a list, so the model has to
  say what an address outside it gives: the outcome \<open>Dangling\<close>, which no Python run
  has. \<open>Raised\<close> carries the exceptions of the method.
\<close>

datatype h_error = Raised py_error | Dangling

definition deref :: "heap \<Rightarrow> addr \<Rightarrow> h_error + dict_object" where
  "deref h a = (if a < length h then Inr (h ! a) else Inl Dangling)"

text \<open>Item assignment \<^verbatim>\<open>d[key] = value\<close> on the object at an address.\<close>

definition setitem :: "heap \<Rightarrow> addr \<Rightarrow> (dict_object \<Rightarrow> dict_object) \<Rightarrow> heap" where
  "setitem h a upd = (if a < length h then h[a := upd (h ! a)] else h)"

text \<open>
  The selector object: \<^verbatim>\<open>self.materials\<close> as keys with references, in declaration
  order, and \<^verbatim>\<open>self.category_priorities\<close>, which the method only reads by key.
\<close>

record selector_object =
  material_refs :: "(string \<times> addr) list"
  category_table :: "(string \<times> category_prefs) list"

definition h_get_cat_prefs :: "selector_object \<Rightarrow> string \<Rightarrow> h_error + category_prefs" where
  "h_get_cat_prefs self category =
     (case map_of (category_table self) ''other'' of
        None \<Rightarrow> Inl (Raised KeyError)
      | Some d \<Rightarrow> Inr (get_or (map_of (category_table self) category) d))"

text \<open>
  \<^verbatim>\<open>[self.materials[k] for k in cat_prefs['preferred_materials']]\<close>: a list of
  references; \<^verbatim>\<open>material in [...]\<close> compares the objects they denote by value.
\<close>

fun h_lookup_all ::
  "heap \<Rightarrow> (string \<times> addr) list \<Rightarrow> string list \<Rightarrow> h_error + dict_object list" where
  "h_lookup_all h refs [] = Inr []"
| "h_lookup_all h refs (k # ks) =
     (case map_of refs k of
        None \<Rightarrow> Inl (Raised KeyError)
      | Some a \<Rightarrow>
          (case deref h a of
             Inl e \<Rightarrow> Inl e
           | Inr obj \<Rightarrow>
               (case h_lookup_all h refs ks of
                  Inl e \<Rightarrow> Inl e
                | Inr r \<Rightarrow> Inr (obj # r))))"

definition h_category_match ::
  "selector_object \<Rightarrow> heap \<Rightarrow> category_prefs \<Rightarrow> string \<Rightarrow> string \<Rightarrow> dict_object
     \<Rightarrow> h_error + (real \<times> string list)" where
  "h_category_match self h cat_prefs category material_key obj =
     (if material_key \<in> set (preferred_materials cat_prefs)
        then Inr (15, [''Optimized for '' @ category @ '' category''])
      else
        (case h_lookup_all h (material_refs self) (preferred_materials cat_prefs) of
           Inl e \<Rightarrow> Inl e
         | Inr preferred \<Rightarrow>
             if obj \<in> set preferred
               then Inr (10, [''Suitable for '' @ category @ '' category''])
             else Inr (5, [])))"

text \<open>
  An entry of \<^verbatim>\<open>material_scores\<close>: \<^verbatim>\<open>'material': material\<close> stores the loop
  variable, a reference to the catalog's object, not a copy.
\<close>

record scored_ref =
  ref_score :: real
  ref_reasons :: "string list"
  ref_material :: addr

definition h_score_material ::
  "selector_object \<Rightarrow> heap \<Rightarrow> category_prefs \<Rightarrow> string \<Rightarrow> real \<Rightarrow> int \<Rightarrow> bool \<Rightarrow> string \<Rightarrow> addr
     \<Rightarrow> h_error + scored_ref option" where
  "h_score_material self h cat_prefs category weight fragility recyclable_priority material_key a =
     (case deref h a of
        Inl e \<Rightarrow> Inl e
      | Inr obj \<Rightarrow>
          (case weight_compatibility weight (items obj) of
             Inl e \<Rightarrow> Inl (Raised e)
           | Inr None \<Rightarrow> Inr None
           | Inr (Some (p1, r1)) \<Rightarrow>
               (let (p2, r2) = fragility_handling fragility (items obj);
                    (p3, r3) = sustainability_points (items obj)
                in case h_category_match self h cat_prefs category material_key obj of
                     Inl e \<Rightarrow> Inl e
                   | Inr (p4, r4) \<Rightarrow>
                       (let (p5, r5) = recyclability recyclable_priority (items obj);
                            (p6, r6) = cost_efficiency (items obj)
                        in Inr (Some \<lparr> ref_score = 0 + p1 + p2 + p3 + p4 + p5 + p6,
                                        ref_reasons = r1 @ r2 @ r3 @ r4 @ r5 @ r6,
                                        ref_material = a \<rparr>)))))"

fun h_score_materials ::
  "selector_object \<Rightarrow> heap \<Rightarrow> category_prefs \<Rightarrow> string \<Rightarrow> real \<Rightarrow> int \<Rightarrow> bool
     \<Rightarrow> (string \<times> addr) list \<Rightarrow> h_error + (string \<times> scored_ref) list" where
  "h_score_materials self h cat_prefs category weight fragility rp [] = Inr []"
| "h_score_materials self h cat_prefs category weight fragility rp ((k, a) # rest) =
     (case h_score_material self h cat_prefs category weight fragility rp k a of
        Inl e \<Rightarrow> Inl e
      | Inr None \<Rightarrow> h_score_materials self h cat_prefs category weight fragility rp rest
      | Inr (Some sc) \<Rightarrow>
          (case h_score_materials self h cat_prefs category weight fragility rp rest of
             Inl e \<Rightarrow> Inl e
           | Inr r \<Rightarrow> Inr ((k, sc) # r)))"

fun h_max_from :: "string \<times> scored_ref \<Rightarrow> (string \<times> scored_ref) list \<Rightarrow> string \<times> scored_ref" where
  "h_max_from best [] = best"
| "h_max_from best (x # xs) =
     h_max_from (if ref_score (snd x) > ref_score (snd best) then x else best) xs"

definition h_max_key :: "(string \<times> scored_ref) list \<Rightarrow> h_error + string" where
  "h_max_key material_scores =
     (case material_scores of
        [] \<Rightarrow> Inl (Raised ValueError)
      | x # xs \<Rightarrow> Inr (fst (h_max_from x xs)))"

text \<open>The dictionary \<^verbatim>\<open>_get_alternatives\<close> appends for one entry.\<close>

definition alternative_of :: "dict_object \<Rightarrow> scored_ref \<Rightarrow> alternative" where
  "alternative_of obj d =
     \<lparr> alt_name = name (items obj),
       alt_score = ref_score d,
       alt_thickness = thickness (items obj),
       alt_cost_factor = cost_factor (items obj),
       alt_sustainability_score = sustainability_score (items obj) \<rparr>"

fun h_alternatives_loop ::
  "heap \<Rightarrow> string \<Rightarrow> nat \<Rightarrow> alternative list \<Rightarrow> (string \<times> scored_ref) list
     \<Rightarrow> h_error + alternative list" where
  "h_alternatives_loop h selected_key count alts [] = Inr alts"
| "h_alternatives_loop h selected_key count alts ((material_key, d) # rest) =
     (if material_key \<noteq> selected_key \<and> length alts < count then
        (case deref h (ref_material d) of
           Inl e \<Rightarrow> Inl e
         | Inr obj \<Rightarrow>
             h_alternatives_loop h selected_key count
               (alts @ [alternative_of obj d])
               rest)
      else h_alternatives_loop h selected_key count alts rest)"

definition h_get_alternatives ::
  "heap \<Rightarrow> (string \<times> scored_ref) list \<Rightarrow> string \<Rightarrow> nat \<Rightarrow> h_error + alternative list" where
  "h_get_alternatives h material_scores selected_key count =
     (let sorted_materials = sort_key (\<lambda>x. - ref_score (snd x)) material_scores
      in h_alternatives_loop h selected_key count [] sorted_materials)"

text \<open>
  The method. Up to the choice of the winner it only reads. Then
  \<^verbatim>\<open>best_match['material'].copy()\<close> allocates a new object at the end of the heap,
  the three assignments \<^verbatim>\<open>selected[...] = ...\<close> write to the object that
  \<^verbatim>\<open>selected\<close> refers to, and that reference is returned.
\<close>

definition h_select ::
  "selector_object \<Rightarrow> string option \<Rightarrow> real \<Rightarrow> int \<Rightarrow> bool \<Rightarrow> heap
     \<Rightarrow> (h_error + addr) \<times> heap" where
  "h_select self category0 weight fragility recyclable_priority h =
     (let category = normalize_category category0
      in case h_get_cat_prefs self category of
           Inl e \<Rightarrow> (Inl e, h)
         | Inr cat_prefs \<Rightarrow>
             (case h_score_materials self h cat_prefs category weight fragility
                     recyclable_priority (material_refs self) of
                Inl e \<Rightarrow> (Inl e, h)
              | Inr material_scores \<Rightarrow>
                  (case h_max_key material_scores of
                     Inl e \<Rightarrow> (Inl e, h)
                   | Inr best_material_key \<Rightarrow>
                       (case map_of material_scores best_material_key of
                          None \<Rightarrow> (Inl (Raised KeyError), h)
                        | Some best_match \<Rightarrow>
                            (case deref h (ref_material best_match) of
                               Inl e \<Rightarrow> (Inl e, h)
                             | Inr obj \<Rightarrow>
                                 (let selected = length h;
                                      h1 = h @ [obj];
                                      h2 = setitem h1 selected
                                             (added_selection_score_update
                                                (\<lambda>_. Some (ref_score best_match)));
                                      h3 = setitem h2 selected
                                             (added_selection_reasons_update
                                                (\<lambda>_. Some (ref_reasons best_match)))
                                  in case h_get_alternatives h3 material_scores
                                            best_material_key 2 of
                                       Inl e \<Rightarrow> (Inl e, h3)
                                     | Inr alts \<Rightarrow>
                                         (Inr selected,
                                          setitem h3 selected
                                            (added_alternatives_update
                                               (\<lambda>_. Some alts)))))))))"

text \<open>What the caller sees: the exception, or the dictionary behind the reference.\<close>

definition returned :: "(h_error + addr) \<times> heap \<Rightarrow> h_error + dict_object" where
  "returned out =
     (case fst out of
        Inl e \<Rightarrow> Inl e
      | Inr a \<Rightarrow> deref (snd out) a)"

text \<open>
  A well-formed selector object on a heap: its keys are distinct, as the keys of a
  dictionary are, and each of its references denotes an object of the heap.
\<close>

definition object_ok :: "selector_object \<Rightarrow> heap \<Rightarrow> bool" where
  "object_ok self h =
     (distinct (map fst (material_refs self))
      \<and> list_all (\<lambda>(k, a). a < length h) (material_refs self))"

text \<open>The object and the heap that \<^verbatim>\<open>MaterialSelector.__init__\<close> builds.\<close>

definition fresh_object :: "material \<Rightarrow> dict_object" where
  "fresh_object m =
     \<lparr> items = m, added_selection_score = None, added_selection_reasons = None,
       added_alternatives = None \<rparr>"

definition catalog_heap :: heap where
  "catalog_heap =
     [ fresh_object recycled_cardboard, fresh_object double_wall_corrugated,
       fresh_object kraft_paper, fresh_object foam_insert_cardboard,
       fresh_object food_grade_cardboard, fresh_object molded_pulp,
       fresh_object honeycomb_cardboard ]"

definition MaterialSelector_object :: selector_object where
  "MaterialSelector_object =
     \<lparr> material_refs =
         [ (''recycled_cardboard'', 0), (''double_wall_corrugated'', 1),
           (''kraft_paper'', 2), (''foam_insert_cardboard'', 3),
           (''food_grade_cardboard'', 4), (''molded_pulp'', 5),
           (''honeycomb_cardboard'', 6) ],
       category_table = category_priorities MaterialSelector \<rparr>"

text \<open>Two heaps hold the same object behind each of the given references.\<close>

definition agree :: "(string \<times> addr) list \<Rightarrow> heap \<Rightarrow> heap \<Rightarrow> bool" where
  "agree refs h h' = list_all (\<lambda>(k, a). deref h' a = deref h a) refs"

text \<open>
  The heap version and the value version of the method are two readings of the same
  code. They are related through a representation: the object's references denote fresh
  objects (no added keys) holding the value selector's materials, key by key in the same
  order, and the category tables are equal. \<open>same_entry\<close> relates an entry of
  \<^verbatim>\<open>material_scores\<close> that holds a reference to one that holds the material, and
  \<open>selection_object\<close> is the dictionary object of a returned selection.
\<close>

definition represents :: "selector_object \<Rightarrow> heap \<Rightarrow> selector \<Rightarrow> bool" where
  "represents self h sel =
     (category_table self = category_priorities sel
      \<and> list_all2 (\<lambda>(k, a) (k', m). k = k' \<and> deref h a = Inr (fresh_object m))
            (material_refs self) (materials sel))"

definition selection_object :: "selection \<Rightarrow> dict_object" where
  "selection_object r =
     \<lparr> items =
         \<lparr> name = name r, thickness = thickness r, recyclable = recyclable r,
           biodegradable = biodegradable r, cost_factor = cost_factor r,
           sustainability_score = sustainability_score r,
           strength_rating = strength_rating r, best_for = best_for r,
           weight_limit = weight_limit r, fragility_max = fragility_max r,
           environmental_impact = environmental_impact r \<rparr>,
       added_selection_score = Some (selection_score r),
       added_selection_reasons = Some (selection_reasons r),
       added_alternatives = Some (alternatives r) \<rparr>"

definition same_entry :: "heap \<Rightarrow> string \<times> scored_ref \<Rightarrow> string \<times> scored \<Rightarrow> bool" where
  "same_entry h x y =
     (fst x = fst y \<and> ref_score (snd x) = score (snd y)
      \<and> ref_reasons (snd x) = reasons (snd y)
      \<and> deref h (ref_material (snd x)) = Inr (fresh_object (mat (snd y))))"

section \<open>Properties of the dimension optimizer\<close>

lemma base_padding_cases:
  "1 \<le> f \<Longrightarrow> f \<le> 5 \<Longrightarrow> f = 1 \<or> f = 2 \<or> f = 3 \<or> f = 4 \<or> f = (5::int)"
  by arith

lemma base_padding_table:
  "base_padding 1 = 1.5" "base_padding 2 = 2.0" "base_padding 3 = 2.5"
  "base_padding 4 = 3.0" "base_padding 5 = 3.5"
  by (simp_all add: base_padding_def padding_multiplier_def)

lemma base_padding_in_table:
  assumes "1 \<le> f" and "f \<le> 5"
  shows "padding_multiplier f = Some (base_padding f)"
  using base_padding_cases [OF assms]
  by (auto simp: base_padding_def padding_multiplier_def)

lemma base_padding_mono:
  assumes "1 \<le> f" and "f \<le> g" and "g \<le> 5"
  shows "base_padding f \<le> base_padding g"
proof -
  have f: "f = 1 \<or> f = 2 \<or> f = 3 \<or> f = 4 \<or> f = 5"
    using assms by (intro base_padding_cases) auto
  have g: "g = 1 \<or> g = 2 \<or> g = 3 \<or> g = 4 \<or> g = 5"
    using assms by (intro base_padding_cases) auto
  from f g assms(2) show ?thesis
    by (auto simp: base_padding_table)
qed

lemma weight_factor_mono: "w \<le> v \<Longrightarrow> weight_factor w \<le> weight_factor v"
  by (simp add: weight_factor_def)

lemma ceiling_upper: "x + p \<le> max (of_int \<lceil>x + p\<rceil>) (5::real)"
  by (rule order_trans [OF le_of_int_ceiling]) simp

text \<open>
  Claim C5. For every valid input of \<open>optimize\<close> (positive length, width, height and
  weight, fragility an integer from 1 to 5) each outer dimension is at least 5, each
  outer dimension is at least the input dimension plus the padding reported for it, the
  reported padding is the fragility table's entry plus the weight factor, and the
  returned volume is exactly the product of the three returned outer dimensions.
\<close>

theorem optimize_box_invariants:
  assumes "0 < l" and "0 < w" and "0 < h" and "0 < wt" and "1 \<le> f" and "f \<le> 5"
  shows "5 \<le> d_length (optimize l w h wt f)
       \<and> 5 \<le> d_width (optimize l w h wt f)
       \<and> 5 \<le> d_height (optimize l w h wt f)
       \<and> l + d_length (padding_applied (optimize l w h wt f)) \<le> d_length (optimize l w h wt f)
       \<and> w + d_width (padding_applied (optimize l w h wt f)) \<le> d_width (optimize l w h wt f)
       \<and> h + d_height (padding_applied (optimize l w h wt f)) \<le> d_height (optimize l w h wt f)
       \<and> (\<exists>p. padding_multiplier f = Some p
             \<and> d_length (padding_applied (optimize l w h wt f)) = p + weight_factor wt
             \<and> d_width (padding_applied (optimize l w h wt f)) = p + weight_factor wt
             \<and> d_height (padding_applied (optimize l w h wt f)) = p + weight_factor wt)
       \<and> volume (optimize l w h wt f)
           = d_length (optimize l w h wt f) * d_width (optimize l w h wt f)
             * d_height (optimize l w h wt f)"
  using base_padding_in_table [OF assms(5,6)]
  by (simp add: optimize_def Let_def ceiling_upper)

theorem optimize_box_invariants_witness:
  "(0::real) < 18 \<and> (0::real) < 14 \<and> (0::real) < 7 \<and> (0::real) < 0.5 \<and> (1::int) \<le> 4 \<and> (4::int) \<le> 5
   \<and> d_length (optimize 18 14 7 0.5 4) = 22
   \<and> d_width (optimize 18 14 7 0.5 4) = 18
   \<and> d_height (optimize 18 14 7 0.5 4) = 11
   \<and> volume (optimize 18 14 7 0.5 4) = 22 * 18 * 11
   \<and> 18 + d_length (padding_applied (optimize 18 14 7 0.5 4)) \<le> d_length (optimize 18 14 7 0.5 4)"
  using optimize_box_invariants [where l = 18 and w = 14 and h = 7 and wt = "0.5" and f = 4]
  by (simp add: optimize_def Let_def base_padding_table weight_factor_def)

text \<open>
  Claim C8. The padding applied to a dimension, \<open>base_padding + weight_factor\<close>, does
  not decrease when the fragility grows within 1 to 5 at a fixed weight, and does not
  decrease when the weight grows at a fixed fragility.
\<close>

theorem padding_monotone:
  assumes "1 \<le> f" and "f \<le> g" and "g \<le> 5" and "wt \<le> wt'"
  shows "d_length (padding_applied (optimize l w h wt f))
           \<le> d_length (padding_applied (optimize l w h wt g))
       \<and> d_width (padding_applied (optimize l w h wt f))
           \<le> d_width (padding_applied (optimize l w h wt g))
       \<and> d_height (padding_applied (optimize l w h wt f))
           \<le> d_height (padding_applied (optimize l w h wt g))
       \<and> d_length (padding_applied (optimize l w h wt f))
           \<le> d_length (padding_applied (optimize l w h wt' f))
       \<and> d_width (padding_applied (optimize l w h wt f))
           \<le> d_width (padding_applied (optimize l w h wt' f))
       \<and> d_height (padding_applied (optimize l w h wt f))
           \<le> d_height (padding_applied (optimize l w h wt' f))"
  using base_padding_mono [OF assms(1,2,3)] weight_factor_mono [OF assms(4)]
  by (simp add: optimize_def Let_def)

theorem padding_monotone_witness:
  "(1::int) \<le> 2 \<and> (2::int) \<le> 4 \<and> (4::int) \<le> 5 \<and> (1.5::real) \<le> 6
   \<and> d_length (padding_applied (optimize 20 15 8 1.5 2)) = 2.5
   \<and> d_length (padding_applied (optimize 20 15 8 1.5 4)) = 3.5
   \<and> d_length (padding_applied (optimize 20 15 8 6 2)) = 3.5
   \<and> d_length (padding_applied (optimize 20 15 8 1.5 2))
        \<le> d_length (padding_applied (optimize 20 15 8 1.5 4))
   \<and> d_length (padding_applied (optimize 20 15 8 1.5 2))
        \<le> d_length (padding_applied (optimize 20 15 8 6 2))"
  using padding_monotone [where f = 2 and g = 4 and wt = "1.5" and wt' = 6
      and l = 20 and w = 15 and h = 8]
  by (simp add: optimize_def Let_def base_padding_table weight_factor_def)

section \<open>Properties of the strength predictor\<close>

lemma props_rc: "get_material_props ''Recycled Cardboard'' = recycled_cardboard_props"
  by (simp add: get_material_props_def material_properties_def)

text \<open>
  Claim C6. For every input of \<open>predict\<close> (any dimensions, any material name, any
  weight, any fragility) the strength score lies in 60..98, the durability score in
  60..98 and the compression score in 65..98.
\<close>

theorem predict_scores_in_bands:
  "60 \<le> strength (predict d n w f) \<and> strength (predict d n w f) \<le> 98
   \<and> 60 \<le> durability_score (predict d n w f) \<and> durability_score (predict d n w f) \<le> 98
   \<and> 65 \<le> compression_resistance (predict d n w f)
   \<and> compression_resistance (predict d n w f) \<le> 98"
  by (simp add: predict_def Let_def split: prod.splits)

text \<open>
  Claim C4, as the code has it. For every input of \<open>predict\<close> the three scores are the
  specification's factor products times 100, cut to an integer by Python's \<^verbatim>\<open>int\<close>
  (truncation towards zero, not rounding to the nearest integer) and then clamped:
  strength and durability to 60..98, compression to 65..98.
\<close>

theorem predict_scores_truncate:
  "strength (predict d n w f)
     = clamp (py_int (base_strength (get_material_props n)
                      * strength_factor (vw_ratio d w)
                      * fragility_factor f (base_strength (get_material_props n))
                      * geometry_factor (aspect_ratio d) * 100)) 60 98
   \<and> durability_score (predict d n w f)
     = clamp (py_int (durability (get_material_props n)
                      * strength_factor (vw_ratio d w) * 100)) 60 98
   \<and> compression_resistance (predict d n w f)
     = clamp (py_int (compression (get_material_props n)
                      * geometry_factor (aspect_ratio d) * 100)) 65 98"
  by (simp add: predict_def Let_def clamp_def split: prod.splits)

text \<open>
  Claim C4 as stated fails: for a 25 x 20 x 15 box of Recycled Cardboard carrying 0.02 kg
  the durability product is \<open>0.80 \<times> 0.92 \<times> 100 = 73.6\<close>; the code reports 73, the
  formula with rounding gives 74.
\<close>

theorem durability_not_rounded:
  "durability_score (predict \<lparr>d_length = 25, d_width = 20, d_height = 15\<rparr>
                       ''Recycled Cardboard'' 0.02 3) = 73
   \<and> spec_durability_score \<lparr>d_length = 25, d_width = 20, d_height = 15\<rparr>
        ''Recycled Cardboard'' 0.02 = 74"
  by (simp add: predict_def Let_def spec_durability_score_def clamp_def props_rc
        recycled_cardboard_props_def vw_ratio_def strength_factor_def py_int_def
        round_def split: prod.splits)

text \<open>
  Claim C3 at a material name that is missing from the strength table. The selector's
  catalog contains \<^verbatim>\<open>'Honeycomb Cardboard'\<close>, the strength table does not. \<open>predict\<close>
  falls back to the Recycled Cardboard entry, as the claim says; \<open>predict_drop_test\<close>
  reads the table without a default and raises instead of returning a result.
\<close>

theorem drop_test_missing_name:
  "material_properties ''Honeycomb Cardboard'' = None
   \<and> predict_drop_test \<lparr>d_length = 25, d_width = 20, d_height = 15\<rparr>
        ''Honeycomb Cardboard'' 1.5 100 = Inl TypeError
   \<and> predict \<lparr>d_length = 25, d_width = 20, d_height = 15\<rparr> ''Honeycomb Cardboard'' 1.5 5
       = predict \<lparr>d_length = 25, d_width = 20, d_height = 15\<rparr> ''Recycled Cardboard'' 1.5 5"
  by (simp add: predict_drop_test_def Let_def material_properties_def predict_def
        get_material_props_def)

section \<open>Properties of the sustainability analyzer\<close>

text \<open>
  Claim C7 at a product whose length is 0. The traditional volume is then 0 and line 79
  divides by it with no guard, so \<open>analyze\<close> raises instead of reporting a volume
  reduction of 0. The two sibling percentages carry the guard \<^verbatim>\<open>if ... > 0 else 0\<close>:
  for a product of \<open>-10 \<times> -10 \<times> -10\<close> the traditional surface, material weight and CO2
  are 0 and both percentages are reported as 0.
\<close>

theorem analyze_zero_volume_raises:
  "analyze \<lparr>d_length = 0, d_width = 15, d_height = 8\<rparr>
           \<lparr>d_length = 22, d_width = 17, d_height = 10\<rparr>
           (material_view_of recycled_cardboard) 0.5 = Inl ZeroDivisionError
   \<and> map_sum id material_reduction_percentage
         (analyze \<lparr>d_length = - 10, d_width = - 10, d_height = - 10\<rparr>
                  \<lparr>d_length = 22, d_width = 17, d_height = 10\<rparr>
                  (material_view_of recycled_cardboard) 0.5) = Inr 0
   \<and> map_sum id co2_reduction_percentage
         (analyze \<lparr>d_length = - 10, d_width = - 10, d_height = - 10\<rparr>
                  \<lparr>d_length = 22, d_width = 17, d_height = 10\<rparr>
                  (material_view_of recycled_cardboard) 0.5) = Inr 0"
  by (simp add: analyze_def Let_def traditional_metrics_def calculate_transport_efficiency_def
        calculate_surface_area_def)

section \<open>Properties of the material selector\<close>

lemmas catalog_defs = recycled_cardboard_def double_wall_corrugated_def kraft_paper_def
  foam_insert_cardboard_def food_grade_cardboard_def molded_pulp_def honeycomb_cardboard_def

lemma other_prefs_present:
  "\<exists>d. map_of (category_priorities MaterialSelector) ''other'' = Some d
       \<and> d \<in> snd ` set (category_priorities MaterialSelector)"
proof -
  have "''other'' \<in> fst ` set (category_priorities MaterialSelector)"
    by (simp add: MaterialSelector_def)
  then have "map_of (category_priorities MaterialSelector) ''other'' \<noteq> None"
    by (simp only: map_of_eq_None_iff not_not)
  then obtain d where d: "map_of (category_priorities MaterialSelector) ''other'' = Some d"
    by blast
  from map_of_SomeD [OF d] have "d \<in> snd ` set (category_priorities MaterialSelector)"
    by force
  with d show ?thesis by blast
qed

lemma get_cat_prefs_builtin:
  "\<exists>cp. get_cat_prefs MaterialSelector c = Inr cp
        \<and> cp \<in> snd ` set (category_priorities MaterialSelector)"
proof -
  obtain d where d: "map_of (category_priorities MaterialSelector) ''other'' = Some d"
    and dm: "d \<in> snd ` set (category_priorities MaterialSelector)"
    using other_prefs_present by blast
  show ?thesis
  proof (cases "map_of (category_priorities MaterialSelector) c")
    case None
    with d dm show ?thesis
      by (simp add: get_cat_prefs_def get_or_def)
  next
    case (Some cp)
    from map_of_SomeD [OF Some]
    have "cp \<in> snd ` set (category_priorities MaterialSelector)"
      by force
    with d Some show ?thesis
      by (simp add: get_cat_prefs_def get_or_def)
  qed
qed

lemma category_match_catalog:
  assumes "cp \<in> snd ` set (category_priorities MaterialSelector)"
      and "(k, m) \<in> set (materials MaterialSelector)"
  shows "category_match MaterialSelector cp cat k m
           = Inr (if k \<in> set (preferred_materials cp)
                  then (15, [''Optimized for '' @ cat @ '' category''])
                  else (5, []))"
  using assms
  by (auto simp: MaterialSelector_def category_match_def catalog_defs)


lemma weight_compatibility_skip:
  "weight_limit m < w \<Longrightarrow> weight_compatibility w m = Inr None"
  by (simp add: weight_compatibility_def)

lemma weight_compatibility_some:
  "weight_compatibility w m = Inr (Some pr) \<Longrightarrow> w \<le> weight_limit m"
  by (simp add: weight_compatibility_def split: if_splits)

lemma weight_compatibility_ok:
  "weight_limit m \<noteq> 0 \<Longrightarrow> w \<le> weight_limit m \<Longrightarrow> \<exists>pr. weight_compatibility w m = Inr (Some pr)"
  by (simp add: weight_compatibility_def Let_def)

lemma score_material_skip:
  "weight_limit m < w \<Longrightarrow> score_material self cp cat w f rp k m = Inr None"
  by (simp add: score_material_def weight_compatibility_skip)

lemma score_material_some:
  assumes "score_material self cp cat w f rp k m = Inr (Some sc)"
  shows "mat sc = m \<and> w \<le> weight_limit m"
proof -
  from assms obtain pr where pr: "weight_compatibility w m = Inr (Some pr)"
    by (auto simp: score_material_def split: sum.splits option.splits)
  from assms have "mat sc = m"
    by (auto simp: score_material_def Let_def split: sum.splits option.splits prod.splits)
  with weight_compatibility_some [OF pr] show ?thesis by simp
qed

lemma score_materials_all_skipped:
  "\<forall>(k, m) \<in> set ms. weight_limit m < w \<Longrightarrow> score_materials self cp cat w f rp ms = Inr []"
  by (induction ms) (auto simp: score_material_skip)

lemma score_materials_sound:
  "score_materials self cp cat w f rp ms = Inr scs \<Longrightarrow> (k, sc) \<in> set scs
     \<Longrightarrow> (k, mat sc) \<in> set ms \<and> w \<le> weight_limit (mat sc)"
proof (induction ms arbitrary: scs)
  case Nil
  then show ?case by simp
next
  case (Cons a ms)
  obtain k0 m0 where a: "a = (k0, m0)" by (cases a)
  show ?case
  proof (cases "score_material self cp cat w f rp k0 m0")
    case (Inl e)
    with Cons.prems a show ?thesis by simp
  next
    case (Inr r)
    show ?thesis
    proof (cases r)
      case None
      with Cons a Inr show ?thesis by auto
    next
      case (Some s0)
      with Cons.prems a Inr obtain rest
        where rest: "score_materials self cp cat w f rp ms = Inr rest"
          and scs: "scs = (k0, s0) # rest"
        by (auto split: sum.splits)
      from Inr Some have "mat s0 = m0 \<and> w \<le> weight_limit m0"
        using score_material_some by blast
      with Cons.IH [OF rest] Cons.prems(2) scs a show ?thesis by auto
    qed
  qed
qed

lemma score_materials_total:
  "\<forall>(k, m) \<in> set ms. \<exists>r. score_material self cp cat w f rp k m = Inr r
     \<Longrightarrow> \<exists>scs. score_materials self cp cat w f rp ms = Inr scs"
proof (induction ms)
  case Nil
  then show ?case by simp
next
  case (Cons a ms)
  obtain k0 m0 where a: "a = (k0, m0)" by (cases a)
  from Cons.prems a obtain r where r: "score_material self cp cat w f rp k0 m0 = Inr r"
    by auto
  from Cons obtain rest where rest: "score_materials self cp cat w f rp ms = Inr rest"
    by auto
  show ?case using a r rest by (cases r) auto
qed

lemma score_materials_nonempty:
  "score_materials self cp cat w f rp ms = Inr scs \<Longrightarrow> (k, m) \<in> set ms
     \<Longrightarrow> score_material self cp cat w f rp k m = Inr (Some sc) \<Longrightarrow> scs \<noteq> []"
proof (induction ms arbitrary: scs)
  case Nil
  then show ?case by simp
next
  case (Cons a ms)
  obtain k0 m0 where a: "a = (k0, m0)" by (cases a)
  show ?case
  proof (cases "(k, m) = a")
    case True
    with Cons.prems a show ?thesis by (auto split: sum.splits)
  next
    case False
    with Cons.prems have mem: "(k, m) \<in> set ms" by simp
    show ?thesis
    proof (cases "score_material self cp cat w f rp k0 m0")
      case (Inl e)
      with Cons.prems a show ?thesis by simp
    next
      case (Inr r)
      show ?thesis
      proof (cases r)
        case None
        with Cons.prems a Inr have "score_materials self cp cat w f rp ms = Inr scs" by simp
        from Cons.IH [OF this mem Cons.prems(3)] show ?thesis .
      next
        case (Some s0)
        with Cons.prems a Inr show ?thesis by (auto split: sum.splits)
      qed
    qed
  qed
qed

lemma max_from_mem: "max_from b xs \<in> set (b # xs)"
  by (induction xs arbitrary: b) (auto split: if_splits)

lemma py_max_key_mem:
  "scs \<noteq> [] \<Longrightarrow> \<exists>k. py_max_key scs = Inr k \<and> k \<in> fst ` set scs"
proof (cases scs)
  case Nil
  assume "scs \<noteq> []"
  with Nil show ?thesis by simp
next
  case (Cons x xs)
  have "max_from x xs \<in> set (x # xs)" by (rule max_from_mem)
  then have "fst (max_from x xs) \<in> fst ` set (x # xs)" by (rule imageI)
  with Cons show ?thesis by (simp add: py_max_key_def)
qed

lemma catalog_limits:
  "(k, m) \<in> set (materials MaterialSelector) \<Longrightarrow> 0 < weight_limit m \<and> weight_limit m \<le> 20"
  by (auto simp: MaterialSelector_def catalog_defs)

lemma score_material_catalog:
  assumes cp: "cp \<in> snd ` set (category_priorities MaterialSelector)"
      and km: "(k, m) \<in> set (materials MaterialSelector)"
  shows "\<exists>r. score_material MaterialSelector cp cat w f rp k m = Inr r
            \<and> (w \<le> weight_limit m \<longrightarrow> r \<noteq> None)"
proof (cases "w \<le> weight_limit m")
  case False
  then show ?thesis by (simp add: score_material_skip)
next
  case True
  from catalog_limits [OF km] have "weight_limit m \<noteq> 0" by simp
  from weight_compatibility_ok [OF this True]
  obtain pr where pr: "weight_compatibility w m = Inr (Some pr)" by blast
  show ?thesis
    using True
    by (simp add: score_material_def pr category_match_catalog [OF cp km] Let_def
          split: prod.splits)
qed

text \<open>
  Claim C1, as the code has it. When the weight exceeds 20, the largest weight limit of
  the built-in catalog, the scoring loop skips every one of the 7 materials: none of them
  enters the candidate set \<^verbatim>\<open>material_scores\<close>, which is empty when the maximum is
  taken.
\<close>

theorem overweight_candidates_empty:
  assumes "20 < weight"
  shows "(\<forall>(k, m) \<in> set (materials MaterialSelector).
            score_material MaterialSelector cp cat weight f rp k m = Inr None)
       \<and> score_materials MaterialSelector cp cat weight f rp (materials MaterialSelector) = Inr []"
proof -
  have all: "\<forall>(k, m) \<in> set (materials MaterialSelector). weight_limit m < weight"
    using assms catalog_limits by fastforce
  then have "\<forall>(k, m) \<in> set (materials MaterialSelector).
            score_material MaterialSelector cp cat weight f rp k m = Inr None"
    by (auto simp: score_material_skip)
  with score_materials_all_skipped [OF all] show ?thesis by blast
qed

theorem overweight_candidates_empty_witness:
  "(20::real) < 25
   \<and> score_material MaterialSelector
        \<lparr>priority = ''balance'', preferred_materials = [''recycled_cardboard''],
           min_strength = ''Medium''\<rparr>
        ''other'' 25 3 True ''honeycomb_cardboard'' honeycomb_cardboard = Inr None
   \<and> score_materials MaterialSelector
        \<lparr>priority = ''balance'', preferred_materials = [''recycled_cardboard''],
           min_strength = ''Medium''\<rparr>
        ''other'' 25 3 True (materials MaterialSelector) = Inr []"
  using overweight_candidates_empty [where weight = 25 and f = 3 and rp = True
      and cat = "''other''"
      and cp = "\<lparr>priority = ''balance'', preferred_materials = [''recycled_cardboard''],
           min_strength = ''Medium''\<rparr>"]
  by (simp add: MaterialSelector_def)

text \<open>
  Claim C1 as stated fails: at weight 25 no material is a candidate and \<open>select\<close> returns
  no selection; the maximum of the empty candidate set is a \<^verbatim>\<open>ValueError\<close>.
\<close>

theorem select_overweight_raises:
  "select MaterialSelector (Some ''other'') 25 3 True = Inl ValueError"
  by (simp add: select_def Let_def normalize_category_def lower_def lower_char_def
        get_cat_prefs_def get_or_def MaterialSelector_def catalog_defs
        score_material_def weight_compatibility_def py_max_key_def)

lemma select_result_is_candidate:
  assumes "select self category weight fragility rp = Inr r"
  shows "\<exists>k m sc rs alts. (k, m) \<in> set (materials self)
            \<and> weight \<le> weight_limit m \<and> r = copy_with m sc rs alts"
proof -
  let ?cat = "normalize_category category"
  from assms obtain cp where cp: "get_cat_prefs self ?cat = Inr cp"
    by (auto simp: select_def Let_def split: sum.splits)
  from assms cp obtain scs where scs:
    "score_materials self cp ?cat weight fragility rp (materials self) = Inr scs"
    by (auto simp: select_def Let_def split: sum.splits)
  from assms cp scs obtain bk where bk: "py_max_key scs = Inr bk"
    by (auto simp: select_def Let_def split: sum.splits)
  from assms cp scs bk obtain best where best: "map_of scs bk = Some best"
    by (auto simp: select_def Let_def split: option.splits)
  from assms cp scs bk best
  have r: "r = copy_with (mat best) (score best) (reasons best) (get_alternatives scs bk 2)"
    by (simp add: select_def Let_def)
  from map_of_SomeD [OF best] have "(bk, best) \<in> set scs" .
  from score_materials_sound [OF scs this] r show ?thesis by blast
qed

lemma select_returns_on_catalog:
  assumes km: "(k, m) \<in> set (materials MaterialSelector)" and wm: "weight \<le> weight_limit m"
  shows "\<exists>r. select MaterialSelector category weight fragility rp = Inr r"
proof -
  let ?cat = "normalize_category category"
  obtain cp where cp: "get_cat_prefs MaterialSelector ?cat = Inr cp"
    and cpm: "cp \<in> snd ` set (category_priorities MaterialSelector)"
    using get_cat_prefs_builtin by blast
  have "\<forall>(k, m) \<in> set (materials MaterialSelector).
          \<exists>r. score_material MaterialSelector cp ?cat weight fragility rp k m = Inr r"
    using score_material_catalog [OF cpm] by blast
  from score_materials_total [OF this]
  obtain scs where scs:
    "score_materials MaterialSelector cp ?cat weight fragility rp (materials MaterialSelector)
       = Inr scs"
    by blast
  from score_material_catalog [OF cpm km] wm
  obtain sc0 where "score_material MaterialSelector cp ?cat weight fragility rp k m = Inr (Some sc0)"
    by blast
  from score_materials_nonempty [OF scs km this] have ne: "scs \<noteq> []" .
  from py_max_key_mem [OF ne] obtain bk where bk: "py_max_key scs = Inr bk"
    and bkm: "bk \<in> fst ` set scs" by blast
  from bkm have "map_of scs bk \<noteq> None"
    by (simp only: map_of_eq_None_iff not_not)
  then obtain best where best: "map_of scs bk = Some best" by blast
  show ?thesis
    by (simp add: select_def Let_def cp scs bk best)
qed

lemma weight_limit_copy_with: "weight_limit (copy_with m sc rs alts) = weight_limit m"
  by (simp add: copy_with_def)

text \<open>
  Claim C2. A selection that \<open>select\<close> returns is a copy of a catalog material whose
  weight limit is at least the weight, so a material whose limit the weight exceeds is
  never the result; and whenever some material of the built-in catalog has a weight limit
  of at least the weight, \<open>select\<close> does return a selection.
\<close>

theorem select_respects_weight_limit:
  "(\<forall>r. select MaterialSelector category weight fragility rp = Inr r \<longrightarrow>
        weight \<le> weight_limit r
        \<and> (\<exists>k m sc rs alts. (k, m) \<in> set (materials MaterialSelector)
               \<and> weight \<le> weight_limit m \<and> r = copy_with m sc rs alts))
   \<and> ((\<exists>(k, m) \<in> set (materials MaterialSelector). weight \<le> weight_limit m) \<longrightarrow>
        (\<exists>r. select MaterialSelector category weight fragility rp = Inr r
            \<and> weight \<le> weight_limit r))"
proof -
  have sound: "weight \<le> weight_limit r
        \<and> (\<exists>k m sc rs alts. (k, m) \<in> set (materials MaterialSelector)
               \<and> weight \<le> weight_limit m \<and> r = copy_with m sc rs alts)"
    if "select MaterialSelector category weight fragility rp = Inr r" for r
  proof -
    from select_result_is_candidate [OF that]
    obtain k m sc rs alts where km: "(k, m) \<in> set (materials MaterialSelector)"
      and wm: "weight \<le> weight_limit m" and r: "r = copy_with m sc rs alts"
      by blast
    from wm r have "weight \<le> weight_limit r"
      by (simp add: weight_limit_copy_with)
    with km wm r show ?thesis by blast
  qed
  have returns: "\<exists>r. select MaterialSelector category weight fragility rp = Inr r
            \<and> weight \<le> weight_limit r"
    if "\<exists>(k, m) \<in> set (materials MaterialSelector). weight \<le> weight_limit m"
  proof -
    from that obtain k m where km: "(k, m) \<in> set (materials MaterialSelector)"
      and wm: "weight \<le> weight_limit m" by blast
    from select_returns_on_catalog [OF km wm]
    obtain r where r: "select MaterialSelector category weight fragility rp = Inr r"
      by blast
    with sound [OF r] show ?thesis by blast
  qed
  from sound returns show ?thesis by blast
qed

theorem select_respects_weight_limit_witness:
  "(\<exists>(k, m) \<in> set (materials MaterialSelector). (12::real) \<le> weight_limit m)
   \<and> (\<exists>r. select MaterialSelector (Some ''other'') 12 2 True = Inr r
          \<and> 12 \<le> weight_limit r
          \<and> name r = ''Honeycomb Cardboard''
          \<and> selection_score r = 81)"
  using select_respects_weight_limit [where weight = 12 and category = "Some ''other''"
      and fragility = 2 and rp = True]
  by (simp add: select_def Let_def normalize_category_def lower_def lower_char_def
        get_cat_prefs_def get_or_def MaterialSelector_def catalog_defs
        score_material_def weight_compatibility_def py_max_key_def
        fragility_handling_def sustainability_points_def category_match_def
        recyclability_def cost_efficiency_def copy_with_def get_alternatives_def)

subsection \<open>Reads and writes of \<^verbatim>\<open>select\<close> on the heap\<close>

lemma agreeD: "agree refs h h' \<Longrightarrow> (k, a) \<in> set refs \<Longrightarrow> deref h' a = deref h a"
  by (auto simp: agree_def list_all_iff)

lemma deref_append: "a < length h \<Longrightarrow> deref (h @ ext) a = deref h a"
  by (simp add: deref_def nth_append)

lemma deref_valid: "deref h a = Inr obj \<Longrightarrow> a < length h"
  by (simp add: deref_def split: if_splits)

lemma setitem_last: "setitem (h @ [x]) (length h) upd = h @ [upd x]"
  by (simp add: setitem_def)

lemma deref_last: "deref (h @ [x]) (length h) = Inr x"
  by (simp add: deref_def)

lemma h_lookup_all_cong:
  "agree refs h h' \<Longrightarrow> h_lookup_all h' refs ks = h_lookup_all h refs ks"
proof (induction ks)
  case Nil
  then show ?case by simp
next
  case (Cons k ks)
  show ?case
  proof (cases "map_of refs k")
    case None
    then show ?thesis by simp
  next
    case (Some a)
    from map_of_SomeD [OF Some] Cons.prems have "deref h' a = deref h a"
      by (rule agreeD [rotated])
    with Some Cons show ?thesis by (simp split: sum.splits)
  qed
qed

lemma h_category_match_cong:
  "agree (material_refs self) h h'
     \<Longrightarrow> h_category_match self h' cp cat k obj = h_category_match self h cp cat k obj"
  by (simp add: h_category_match_def h_lookup_all_cong split: sum.splits)

lemma h_score_material_cong:
  assumes "agree (material_refs self) h h'" and "deref h' a = deref h a"
  shows "h_score_material self h' cp cat w f rp k a = h_score_material self h cp cat w f rp k a"
  using assms
  by (simp add: h_score_material_def h_category_match_cong Let_def
        split: sum.splits option.splits prod.splits)

lemma h_score_materials_cong:
  assumes "agree (material_refs self) h h'"
  shows "agree ms h h'
     \<Longrightarrow> h_score_materials self h' cp cat w f rp ms = h_score_materials self h cp cat w f rp ms"
proof (induction ms)
  case Nil
  then show ?case by simp
next
  case (Cons x ms)
  obtain k a where x: "x = (k, a)" by (cases x)
  from Cons.prems x have d: "deref h' a = deref h a" and rest: "agree ms h h'"
    by (simp_all add: agree_def)
  show ?case
    by (simp add: x h_score_material_cong [OF assms d] Cons.IH [OF rest]
          split: sum.splits option.splits)
qed

lemma h_score_material_ref:
  "h_score_material self h cp cat w f rp k a = Inr (Some sc)
     \<Longrightarrow> ref_material sc = a \<and> a < length h"
  by (auto simp: h_score_material_def Let_def deref_def
        split: sum.splits option.splits prod.splits if_splits)

lemma h_score_materials_refs:
  "h_score_materials self h cp cat w f rp ms = Inr scs \<Longrightarrow> (k, sc) \<in> set scs
     \<Longrightarrow> (k, ref_material sc) \<in> set ms \<and> ref_material sc < length h"
proof (induction ms arbitrary: scs)
  case Nil
  then show ?case by simp
next
  case (Cons x ms)
  obtain k0 a0 where x: "x = (k0, a0)" by (cases x)
  show ?case
  proof (cases "h_score_material self h cp cat w f rp k0 a0")
    case (Inl e)
    with Cons.prems x show ?thesis by simp
  next
    case (Inr r)
    show ?thesis
    proof (cases r)
      case None
      with Cons x Inr show ?thesis by auto
    next
      case (Some s0)
      with Cons.prems x Inr obtain rest
        where rest: "h_score_materials self h cp cat w f rp ms = Inr rest"
          and scs: "scs = (k0, s0) # rest"
        by (auto split: sum.splits)
      from Inr Some have "ref_material s0 = a0 \<and> a0 < length h"
        using h_score_material_ref by blast
      with Cons.IH [OF rest] Cons.prems(2) scs x show ?thesis by auto
    qed
  qed
qed

lemma h_alternatives_loop_cong:
  "\<forall>(k, d) \<in> set xs. deref h' (ref_material d) = deref h (ref_material d)
     \<Longrightarrow> h_alternatives_loop h' sel n alts xs = h_alternatives_loop h sel n alts xs"
  by (induction h sel n alts xs rule: h_alternatives_loop.induct)
     (auto split: sum.splits)

lemma h_get_alternatives_cong:
  "\<forall>(k, d) \<in> set scs. deref h' (ref_material d) = deref h (ref_material d)
     \<Longrightarrow> h_get_alternatives h' scs sel n = h_get_alternatives h scs sel n"
  by (simp add: h_get_alternatives_def h_alternatives_loop_cong)

lemma h_max_from_mem: "h_max_from b xs \<in> set (b # xs)"
  by (induction xs arbitrary: b) (auto split: if_splits)

lemma h_score_materials_derefs:
  assumes "h_score_materials self h cp cat w f rp ms = Inr scs"
  shows "\<forall>(k, d) \<in> set scs. deref (h @ ext) (ref_material d) = deref h (ref_material d)"
  using h_score_materials_refs [OF assms] by (auto simp: deref_append)

lemma h_select_frame: "\<exists>ext. snd (h_select self c w f rp h) = h @ ext"
  by (auto simp: h_select_def Let_def setitem_last split: sum.splits option.splits)

lemma returned_h_select:
  "returned (h_select self c w f rp h) =
     (case h_get_cat_prefs self (normalize_category c) of
        Inl e \<Rightarrow> Inl e
      | Inr cp \<Rightarrow>
          (case h_score_materials self h cp (normalize_category c) w f rp (material_refs self) of
             Inl e \<Rightarrow> Inl e
           | Inr scs \<Rightarrow>
               (case h_max_key scs of
                  Inl e \<Rightarrow> Inl e
                | Inr bk \<Rightarrow>
                    (case map_of scs bk of
                       None \<Rightarrow> Inl (Raised KeyError)
                     | Some best \<Rightarrow>
                         (case deref h (ref_material best) of
                            Inl e \<Rightarrow> Inl e
                          | Inr obj \<Rightarrow>
                              (case h_get_alternatives h scs bk 2 of
                                 Inl e \<Rightarrow> Inl e
                               | Inr alts \<Rightarrow>
                                   Inr (obj\<lparr>added_selection_score := Some (ref_score best),
                                           added_selection_reasons := Some (ref_reasons best),
                                           added_alternatives := Some alts\<rparr>)))))))"
proof (cases "h_get_cat_prefs self (normalize_category c)")
  case (Inl e)
  then show ?thesis by (simp add: returned_def h_select_def)
next
  case cp: (Inr cp)
  show ?thesis
  proof (cases "h_score_materials self h cp (normalize_category c) w f rp (material_refs self)")
    case (Inl e)
    with cp show ?thesis by (simp add: returned_def h_select_def)
  next
    case scs: (Inr scs)
    have alts: "h_get_alternatives (h @ ext) scs bk 2 = h_get_alternatives h scs bk 2" for ext bk
      by (rule h_get_alternatives_cong) (rule h_score_materials_derefs [OF scs])
    show ?thesis
      using cp scs
      by (auto simp: returned_def h_select_def Let_def setitem_last alts deref_last
            split: sum.splits option.splits)
  qed
qed

lemma agree_refl_refs: "agree refs h h"
  by (simp add: agree_def list_all_iff)

lemma h_select_reads_catalog_only:
  assumes ag: "agree (material_refs self) h h'"
  shows "returned (h_select self c w f rp h') = returned (h_select self c w f rp h)"
proof -
  let ?cat = "normalize_category c"
  have scs_eq: "h_score_materials self h' cp ?cat w f rp (material_refs self)
        = h_score_materials self h cp ?cat w f rp (material_refs self)" for cp
    by (rule h_score_materials_cong [OF ag ag])
  have tail: "(case deref h' (ref_material best) of Inl e \<Rightarrow> Inl e
         | Inr obj \<Rightarrow> (case h_get_alternatives h' scs bk 2 of Inl e \<Rightarrow> Inl e
             | Inr alts \<Rightarrow> Inr (obj\<lparr>added_selection_score := Some (ref_score best),
                                   added_selection_reasons := Some (ref_reasons best),
                                   added_alternatives := Some alts\<rparr>)))
      = (case deref h (ref_material best) of Inl e \<Rightarrow> Inl e
         | Inr obj \<Rightarrow> (case h_get_alternatives h scs bk 2 of Inl e \<Rightarrow> Inl e
             | Inr alts \<Rightarrow> Inr (obj\<lparr>added_selection_score := Some (ref_score best),
                                   added_selection_reasons := Some (ref_reasons best),
                                   added_alternatives := Some alts\<rparr>)))"
    if scs: "h_score_materials self h cp ?cat w f rp (material_refs self) = Inr scs"
      and best: "map_of scs bk = Some best" for cp scs bk best
  proof -
    have refs: "\<forall>(k, d) \<in> set scs. deref h' (ref_material d) = deref h (ref_material d)"
      using h_score_materials_refs [OF scs] agreeD [OF ag] by blast
    from map_of_SomeD [OF best] refs
    have "deref h' (ref_material best) = deref h (ref_material best)" by blast
    with h_get_alternatives_cong [OF refs] show ?thesis by (simp split: sum.splits)
  qed
  show ?thesis
    unfolding returned_h_select scs_eq
    by (auto split: sum.splits option.splits simp: tail)
qed

lemma object_ok_agree:
  assumes "object_ok self h"
  shows "agree (material_refs self) h (h @ ext)"
  using assms by (auto simp: object_ok_def agree_def list_all_iff deref_append)

lemma h_max_from_first_max:
  "\<exists>pre post. b # xs = pre @ h_max_from b xs # post
      \<and> (\<forall>y \<in> set pre. ref_score (snd y) < ref_score (snd (h_max_from b xs)))
      \<and> (\<forall>y \<in> set post. ref_score (snd y) \<le> ref_score (snd (h_max_from b xs)))"
proof (induction xs arbitrary: b)
  case Nil
  show ?case
    by (rule exI [of _ "[]"], rule exI [of _ "[]"]) simp
next
  case (Cons x xs)
  show ?case
  proof (cases "ref_score (snd x) > ref_score (snd b)")
    case True
    define r where "r = h_max_from x xs"
    from Cons [of x] obtain pre post where d: "x # xs = pre @ r # post"
      and lo: "\<forall>y \<in> set pre. ref_score (snd y) < ref_score (snd r)"
      and hi: "\<forall>y \<in> set post. ref_score (snd y) \<le> ref_score (snd r)"
      unfolding r_def by blast
    have "x \<in> set (x # xs)" by simp
    then have "x \<in> set pre \<or> x = r \<or> x \<in> set post" unfolding d by auto
    then have "ref_score (snd x) \<le> ref_score (snd r)"
      using lo hi by fastforce
    with True have b: "ref_score (snd b) < ref_score (snd r)" by simp
    have r: "h_max_from b (x # xs) = r" using True by (simp add: r_def)
    have "b # x # xs = (b # pre) @ r # post
        \<and> (\<forall>y \<in> set (b # pre). ref_score (snd y) < ref_score (snd r))
        \<and> (\<forall>y \<in> set post. ref_score (snd y) \<le> ref_score (snd r))"
      using d lo hi b by simp
    then show ?thesis unfolding r
      by (intro exI [of _ "b # pre"] exI [of _ post])
  next
    case False
    define r where "r = h_max_from b xs"
    from Cons [of b] obtain pre post where d: "b # xs = pre @ r # post"
      and lo: "\<forall>y \<in> set pre. ref_score (snd y) < ref_score (snd r)"
      and hi: "\<forall>y \<in> set post. ref_score (snd y) \<le> ref_score (snd r)"
      unfolding r_def by blast
    have r: "h_max_from b (x # xs) = r" using False by (simp add: r_def)
    show ?thesis
    proof (cases pre)
      case Nil
      with d have br: "r = b" and post: "post = xs" by simp_all
      have "b # x # xs = [] @ r # (x # xs)
          \<and> (\<forall>y \<in> set []. ref_score (snd y) < ref_score (snd r))
          \<and> (\<forall>y \<in> set (x # xs). ref_score (snd y) \<le> ref_score (snd r))"
        using False hi br post by auto
      then show ?thesis unfolding r
        by (intro exI [of _ "[]"] exI [of _ "x # xs"])
    next
      case (Cons p pre')
      with d have p: "p = b" and d': "xs = pre' @ r # post" by simp_all
      from lo Cons p have b: "ref_score (snd b) < ref_score (snd r)" by simp
      have "b # x # xs = (b # x # pre') @ r # post
          \<and> (\<forall>y \<in> set (b # x # pre'). ref_score (snd y) < ref_score (snd r))
          \<and> (\<forall>y \<in> set post. ref_score (snd y) \<le> ref_score (snd r))"
        using lo hi Cons b False d' by auto
      then show ?thesis unfolding r
        by (intro exI [of _ "b # x # pre'"] exI [of _ post])
    qed
  qed
qed

lemma h_score_material_qualifies:
  assumes "h_score_material self h cp cat w f rp k a = Inr r"
  shows "(r \<noteq> None) = (w \<le> weight_limit (items (h ! a)))"
  using assms
  by (auto simp: h_score_material_def Let_def deref_def weight_compatibility_def
        split: sum.splits option.splits prod.splits if_splits)

lemma h_score_materials_candidates:
  "h_score_materials self h cp cat w f rp ms = Inr scs
     \<Longrightarrow> map (\<lambda>(k, d). (k, ref_material d)) scs
           = filter (\<lambda>(k, a). w \<le> weight_limit (items (h ! a))) ms"
proof (induction ms arbitrary: scs)
  case Nil
  then show ?case by simp
next
  case (Cons x ms)
  obtain k0 a0 where x: "x = (k0, a0)" by (cases x)
  show ?case
  proof (cases "h_score_material self h cp cat w f rp k0 a0")
    case (Inl e)
    with Cons.prems x show ?thesis by simp
  next
    case (Inr r)
    note q = h_score_material_qualifies [OF Inr]
    show ?thesis
    proof (cases r)
      case None
      with Cons x Inr q show ?thesis by auto
    next
      case (Some s0)
      with Cons.prems x Inr obtain rest
        where rest: "h_score_materials self h cp cat w f rp ms = Inr rest"
          and scs: "scs = (k0, s0) # rest"
        by (auto split: sum.splits)
      from Inr Some have "ref_material s0 = a0"
        using h_score_material_ref by blast
      with Cons.IH [OF rest] scs x q Some show ?thesis by simp
    qed
  qed
qed

lemma h_score_materials_distinct:
  assumes "h_score_materials self h cp cat w f rp ms = Inr scs"
      and "distinct (map fst ms)"
  shows "distinct (map fst scs)"
proof -
  have "map fst scs = map fst (map (\<lambda>(k, d). (k, ref_material d)) scs)"
    by (simp add: case_prod_unfold comp_def)
  also have "\<dots> = map fst (filter (\<lambda>(k, a). w \<le> weight_limit (items (h ! a))) ms)"
    by (simp only: h_score_materials_candidates [OF assms(1)])
  finally show ?thesis using assms(2) by (simp add: distinct_map_filter)
qed

lemma h_alternatives_loop_take:
  "\<forall>(k, d) \<in> set xs. ref_material d < length h
     \<Longrightarrow> h_alternatives_loop h sel n alts xs
           = Inr (alts @ take (n - length alts)
                    (map (\<lambda>(k, d). alternative_of (h ! ref_material d) d)
                       (filter (\<lambda>x. fst x \<noteq> sel) xs)))"
proof (induction h sel n alts xs rule: h_alternatives_loop.induct)
  case (1 h sel n alts)
  show ?case by simp
next
  case (2 h sel n alts k d rest)
  from "2.prems" have v: "ref_material d < length h"
    and r: "\<forall>(k, d) \<in> set rest. ref_material d < length h" by auto
  show ?case
  proof (cases "k \<noteq> sel \<and> length alts < n")
    case True
    then have n: "n - length alts = Suc (n - Suc (length alts))" by arith
    from v have dr: "deref h (ref_material d) = Inr (h ! ref_material d)"
      by (simp add: deref_def)
    from "2.IH"(1) [OF True dr r] True dr show ?thesis
      by (simp add: n)
  next
    case False
    from "2.IH"(2) [OF False r] False show ?thesis
      by auto
  qed
qed

lemma h_get_alternatives_take:
  assumes "\<forall>(k, d) \<in> set scs. ref_material d < length h"
  shows "h_get_alternatives h scs sel n
           = Inr (take n (map (\<lambda>(k, d). alternative_of (h ! ref_material d) d)
                    (filter (\<lambda>x. fst x \<noteq> sel)
                       (sort_key (\<lambda>x. - ref_score (snd x)) scs))))"
proof -
  have "\<forall>(k, d) \<in> set (sort_key (\<lambda>x. - ref_score (snd x)) scs). ref_material d < length h"
    using assms by simp
  from h_alternatives_loop_take [OF this] show ?thesis
    by (simp add: h_get_alternatives_def)
qed

lemma sort_desc_stable:
  "sorted_wrt (\<lambda>x y. ref_score (snd y) \<le> ref_score (snd x))
     (sort_key (\<lambda>x. - ref_score (snd x)) (scs :: (string \<times> scored_ref) list))
   \<and> (\<forall>v. filter (\<lambda>x. ref_score (snd x) = v) (sort_key (\<lambda>x. - ref_score (snd x)) scs)
          = filter (\<lambda>x. ref_score (snd x) = v) scs)"
proof -
  let ?f = "\<lambda>x::string \<times> scored_ref. - ref_score (snd x)"
  have "sorted (map ?f (sort_key ?f scs))" by (rule sorted_sort_key)
  then have a: "sorted_wrt (\<lambda>x y. ref_score (snd y) \<le> ref_score (snd x)) (sort_key ?f scs)"
    by (simp add: sorted_map)
  have "filter (\<lambda>x. ref_score (snd x) = v) (sort_key ?f scs)
          = filter (\<lambda>x. ref_score (snd x) = v) scs" for v
    using sort_key_stable [of ?f "- v" scs] by simp
  with a show ?thesis by blast
qed

lemma h_select_winner:
  assumes ok: "object_ok self h"
      and cp: "h_get_cat_prefs self (normalize_category c) = Inr cp"
      and scs: "h_score_materials self h cp (normalize_category c) w f rp (material_refs self)
                  = Inr scs"
      and ne: "scs \<noteq> []"
  shows "\<exists>pre k best post. scs = pre @ (k, best) # post
      \<and> (\<forall>y \<in> set pre. ref_score (snd y) < ref_score best)
      \<and> (\<forall>y \<in> set post. ref_score (snd y) \<le> ref_score best)
      \<and> returned (h_select self c w f rp h)
          = Inr ((h ! ref_material best)
                  \<lparr>added_selection_score := Some (ref_score best),
                    added_selection_reasons := Some (ref_reasons best),
                    added_alternatives :=
                      Some (take 2 (map (\<lambda>(k', d). alternative_of (h ! ref_material d) d)
                              (filter (\<lambda>x. fst x \<noteq> k)
                                 (sort_key (\<lambda>x. - ref_score (snd x)) scs))))\<rparr>)"
proof -
  from ne obtain x xs where x: "scs = x # xs" by (cases scs) auto
  define r where "r = h_max_from x xs"
  obtain k best where kb: "r = (k, best)" by (cases r)
  from h_max_from_first_max [of x xs] obtain pre post
    where d: "scs = pre @ (k, best) # post"
      and lo: "\<forall>y \<in> set pre. ref_score (snd y) < ref_score best"
      and hi: "\<forall>y \<in> set post. ref_score (snd y) \<le> ref_score best"
    unfolding x r_def [symmetric] kb by auto
  have mk: "h_max_key scs = Inr k"
    by (simp add: h_max_key_def x r_def [symmetric] kb)
  from ok have "distinct (map fst (material_refs self))" by (simp add: object_ok_def)
  from h_score_materials_distinct [OF scs this] have dist: "distinct (map fst scs)" .
  have mem: "(k, best) \<in> set scs" unfolding d by simp
  with dist have best: "map_of scs k = Some best" by simp
  have valid: "\<forall>(k, d) \<in> set scs. ref_material d < length h"
    using h_score_materials_refs [OF scs] by blast
  with mem have "ref_material best < length h" by blast
  then have dr: "deref h (ref_material best) = Inr (h ! ref_material best)"
    by (simp add: deref_def)
  have "returned (h_select self c w f rp h)
          = Inr ((h ! ref_material best)
                  \<lparr>added_selection_score := Some (ref_score best),
                    added_selection_reasons := Some (ref_reasons best),
                    added_alternatives :=
                      Some (take 2 (map (\<lambda>(k', d). alternative_of (h ! ref_material d) d)
                              (filter (\<lambda>x. fst x \<noteq> k)
                                 (sort_key (\<lambda>x. - ref_score (snd x)) scs))))\<rparr>)"
    by (simp add: returned_h_select cp scs mk best dr h_get_alternatives_take [OF valid])
  with d lo hi show ?thesis by blast
qed

text \<open>
  The heap version returns what the value version returns: on a heap that represents a
  selector, the dictionary behind the returned reference is the selection that
  \<open>select\<close> computes, and the exceptions are the same. The built-in object on the
  built-in heap represents \<open>MaterialSelector\<close>.
\<close>

lemma fresh_object_inj: "(fresh_object m = fresh_object m') = (m = m')"
  by (simp add: fresh_object_def)

lemma items_fresh: "items (fresh_object m) = m"
  by (simp add: fresh_object_def)

lemma map_of_related:
  assumes "list_all2 (\<lambda>(k, a) (k', m). k = k' \<and> deref h a = Inr (fresh_object m)) refs ms"
  shows "(map_of refs k = None \<and> map_of ms k = None)
       \<or> (\<exists>a m. map_of refs k = Some a \<and> map_of ms k = Some m
                \<and> deref h a = Inr (fresh_object m))"
  using assms by (induction rule: list_all2_induct) auto

lemma h_lookup_all_refines:
  assumes "list_all2 (\<lambda>(k, a) (k', m). k = k' \<and> deref h a = Inr (fresh_object m)) refs ms"
  shows "h_lookup_all h refs ks = map_sum Raised (map fresh_object) (lookup_all ms ks)"
proof (induction ks)
  case Nil
  show ?case by simp
next
  case (Cons k ks)
  from map_of_related [OF assms, of k] Cons show ?case
    by (auto split: sum.splits)
qed

lemma h_category_match_refines:
  assumes "represents self h sel"
  shows "h_category_match self h cp cat k (fresh_object m)
           = map_sum Raised id (category_match sel cp cat k m)"
proof -
  from assms have "h_lookup_all h (material_refs self) ks
      = map_sum Raised (map fresh_object) (lookup_all (materials sel) ks)" for ks
    by (simp add: represents_def h_lookup_all_refines)
  then show ?thesis
    by (auto simp: h_category_match_def category_match_def fresh_object_inj
          split: sum.splits)
qed

lemma h_score_material_refines:
  assumes "represents self h sel" and "deref h a = Inr (fresh_object m)"
  shows "h_score_material self h cp cat w f rp k a
           = map_sum Raised
               (map_option (\<lambda>sc. \<lparr>ref_score = score sc, ref_reasons = reasons sc,
                                    ref_material = a\<rparr>))
               (score_material sel cp cat w f rp k m)"
  using assms(2)
  by (auto simp: h_score_material_def score_material_def items_fresh Let_def
        h_category_match_refines [OF assms(1)]
        split: sum.splits option.splits prod.splits)

lemma h_score_materials_refines:
  assumes rep: "represents self h sel"
  shows "list_all2 (\<lambda>(k, a) (k', m). k = k' \<and> deref h a = Inr (fresh_object m)) refs ms
     \<Longrightarrow> (\<exists>e. h_score_materials self h cp cat w f rp refs = Inl (Raised e)
              \<and> score_materials sel cp cat w f rp ms = Inl e)
       \<or> (\<exists>hs scs. h_score_materials self h cp cat w f rp refs = Inr hs
              \<and> score_materials sel cp cat w f rp ms = Inr scs
              \<and> list_all2 (same_entry h) hs scs)"
proof (induction rule: list_all2_induct)
  case Nil
  show ?case by simp
next
  case (Cons x refs y ms)
  obtain k a where x: "x = (k, a)" by (cases x)
  obtain k' m where y: "y = (k', m)" by (cases y)
  from Cons(1) x y have kk: "k' = k" and d: "deref h a = Inr (fresh_object m)" by auto
  note sm = h_score_material_refines [OF rep d, of cp cat w f rp k]
  show ?case
  proof (cases "score_material sel cp cat w f rp k m")
    case (Inl e)
    with sm x y kk show ?thesis by simp
  next
    case (Inr r)
    show ?thesis
    proof (cases r)
      case None
      with sm Inr x y kk Cons(3) show ?thesis by simp
    next
      case (Some sc)
      from Cons(3) show ?thesis
      proof
        assume "\<exists>e. h_score_materials self h cp cat w f rp refs = Inl (Raised e)
              \<and> score_materials sel cp cat w f rp ms = Inl e"
        with sm Inr Some x y kk show ?thesis by auto
      next
        assume "\<exists>hs scs. h_score_materials self h cp cat w f rp refs = Inr hs
              \<and> score_materials sel cp cat w f rp ms = Inr scs
              \<and> list_all2 (same_entry h) hs scs"
        then obtain hs scs where hs: "h_score_materials self h cp cat w f rp refs = Inr hs"
          and scs: "score_materials sel cp cat w f rp ms = Inr scs"
          and rel: "list_all2 (same_entry h) hs scs" by blast
        from Inr Some have "mat sc = m" using score_material_some by blast
        with d have hd: "same_entry h
            (k, \<lparr>ref_score = score sc, ref_reasons = reasons sc, ref_material = a\<rparr>) (k, sc)"
          by (simp add: same_entry_def)
        from sm Inr Some x y kk hs scs rel hd show ?thesis
          by simp
      qed
    qed
  qed
qed

lemma same_entry_score: "same_entry h x y \<Longrightarrow> ref_score (snd x) = score (snd y)"
  by (simp add: same_entry_def)

lemma h_max_from_refines:
  "list_all2 (same_entry h) xs ys \<Longrightarrow> same_entry h b b'
     \<Longrightarrow> same_entry h (h_max_from b xs) (max_from b' ys)"
proof (induction arbitrary: b b' rule: list_all2_induct)
  case Nil
  then show ?case by simp
next
  case (Cons x xs y ys)
  from Cons(1) Cons.prems
  have "same_entry h (if ref_score (snd x) > ref_score (snd b) then x else b)
          (if score (snd y) > score (snd b') then y else b')"
    by (simp add: same_entry_score)
  from Cons.IH [OF this] show ?case by simp
qed

lemma h_max_key_refines:
  assumes "list_all2 (same_entry h) hs scs"
  shows "h_max_key hs = map_sum Raised id (py_max_key scs)"
proof (cases hs)
  case Nil
  with assms show ?thesis by (simp add: h_max_key_def py_max_key_def)
next
  case (Cons x xs)
  with assms obtain y ys where scs: "scs = y # ys" and xy: "same_entry h x y"
    and rest: "list_all2 (same_entry h) xs ys"
    by (auto simp: list_all2_Cons1)
  from h_max_from_refines [OF rest xy]
  have "fst (h_max_from x xs) = fst (max_from y ys)" by (simp add: same_entry_def)
  with Cons scs show ?thesis by (simp add: h_max_key_def py_max_key_def)
qed

lemma map_of_entries:
  "list_all2 (same_entry h) hs scs
     \<Longrightarrow> (map_of hs k = None \<and> map_of scs k = None)
       \<or> (\<exists>x y. map_of hs k = Some x \<and> map_of scs k = Some y \<and> same_entry h (k, x) (k, y))"
proof (induction rule: list_all2_induct)
  case Nil
  show ?case by simp
next
  case (Cons x xs y ys)
  obtain kx vx where x: "x = (kx, vx)" by (cases x)
  obtain ky vy where y: "y = (ky, vy)" by (cases y)
  from Cons(1) x y have kk: "ky = kx" by (simp add: same_entry_def)
  show ?case
  proof (cases "kx = k")
    case True
    with Cons(1) x y kk show ?thesis by simp
  next
    case False
    with Cons(3) x y kk show ?thesis by simp
  qed
qed

lemma insort_entries:
  "list_all2 (same_entry h) xs ys \<Longrightarrow> same_entry h x y
     \<Longrightarrow> list_all2 (same_entry h)
           (insort_key (\<lambda>x. - ref_score (snd x)) x xs)
           (insort_key (\<lambda>x. - score (snd x)) y ys)"
proof (induction rule: list_all2_induct)
  case Nil
  then show ?case by simp
next
  case (Cons a xs b ys)
  from Cons(1) Cons.prems
  have "(- ref_score (snd x) \<le> - ref_score (snd a)) = (- score (snd y) \<le> - score (snd b))"
    by (simp add: same_entry_score)
  with Cons show ?case by simp
qed

lemma sort_entries:
  "list_all2 (same_entry h) hs scs
     \<Longrightarrow> list_all2 (same_entry h)
           (sort_key (\<lambda>x. - ref_score (snd x)) hs)
           (sort_key (\<lambda>x. - score (snd x)) scs)"
  by (induction rule: list_all2_induct) (simp_all add: insort_entries)

lemma h_alternatives_loop_refines:
  "list_all2 (same_entry h) xs ys
     \<Longrightarrow> h_alternatives_loop h sel n alts xs = Inr (alternatives_loop sel n alts ys)"
proof (induction arbitrary: alts rule: list_all2_induct)
  case Nil
  show ?case by simp
next
  case (Cons x xs y ys)
  obtain kx vx where x: "x = (kx, vx)" by (cases x)
  obtain ky vy where y: "y = (ky, vy)" by (cases y)
  from Cons(1) x y have kk: "ky = kx" and sc: "ref_score vx = score vy"
    and d: "deref h (ref_material vx) = Inr (fresh_object (mat vy))"
    by (simp_all add: same_entry_def)
  show ?case
    by (simp add: x y kk sc d Cons.IH alternative_of_def items_fresh)
qed

lemma h_get_alternatives_refines:
  "list_all2 (same_entry h) hs scs
     \<Longrightarrow> h_get_alternatives h hs sel n = Inr (get_alternatives scs sel n)"
  by (simp add: h_get_alternatives_def get_alternatives_def
        h_alternatives_loop_refines [OF sort_entries])

lemma selection_object_copy:
  "selection_object (copy_with m sc rs alts)
     = (fresh_object m)\<lparr>added_selection_score := Some sc,
                          added_selection_reasons := Some rs,
                          added_alternatives := Some alts\<rparr>"
  by (simp add: selection_object_def copy_with_def fresh_object_def)

lemma h_select_refines_select:
  assumes rep: "represents self h sel"
  shows "returned (h_select self c w f rp h)
           = map_sum Raised selection_object (select sel c w f rp)"
proof -
  let ?cat = "normalize_category c"
  from rep have ct: "category_table self = category_priorities sel"
    and mats: "list_all2 (\<lambda>(k, a) (k', m). k = k' \<and> deref h a = Inr (fresh_object m))
                 (material_refs self) (materials sel)"
    by (simp_all add: represents_def)
  have cp: "h_get_cat_prefs self ?cat = map_sum Raised id (get_cat_prefs sel ?cat)"
    by (simp add: h_get_cat_prefs_def get_cat_prefs_def ct split: option.splits)
  show ?thesis
  proof (cases "get_cat_prefs sel ?cat")
    case (Inl e)
    with cp show ?thesis by (simp add: returned_h_select select_def)
  next
    case (Inr prefs)
    with cp have hcp: "h_get_cat_prefs self ?cat = Inr prefs" by simp
    from h_score_materials_refines [OF rep mats, of prefs ?cat w f rp]
    show ?thesis
    proof
      assume "\<exists>e. h_score_materials self h prefs ?cat w f rp (material_refs self) = Inl (Raised e)
              \<and> score_materials sel prefs ?cat w f rp (materials sel) = Inl e"
      with Inr hcp show ?thesis by (auto simp: returned_h_select select_def)
    next
      assume "\<exists>hs scs. h_score_materials self h prefs ?cat w f rp (material_refs self) = Inr hs
              \<and> score_materials sel prefs ?cat w f rp (materials sel) = Inr scs
              \<and> list_all2 (same_entry h) hs scs"
      then obtain hs scs
        where hs: "h_score_materials self h prefs ?cat w f rp (material_refs self) = Inr hs"
          and scs: "score_materials sel prefs ?cat w f rp (materials sel) = Inr scs"
          and rel: "list_all2 (same_entry h) hs scs" by blast
      note mk = h_max_key_refines [OF rel]
      show ?thesis
      proof (cases "py_max_key scs")
        case (Inl e)
        with mk Inr hcp hs scs show ?thesis by (simp add: returned_h_select select_def)
      next
        case bk: (Inr bk)
        with mk have hbk: "h_max_key hs = Inr bk" by simp
        from map_of_entries [OF rel, of bk] show ?thesis
        proof
          assume "map_of hs bk = None \<and> map_of scs bk = None"
          with Inr hcp hs scs bk hbk show ?thesis
            by (simp add: returned_h_select select_def)
        next
          assume "\<exists>x y. map_of hs bk = Some x \<and> map_of scs bk = Some y
                    \<and> same_entry h (bk, x) (bk, y)"
          then obtain x y where x: "map_of hs bk = Some x" and y: "map_of scs bk = Some y"
            and xy: "same_entry h (bk, x) (bk, y)" by blast
          from xy have d: "deref h (ref_material x) = Inr (fresh_object (mat y))"
            and s: "ref_score x = score y" and r: "ref_reasons x = reasons y"
            by (simp_all add: same_entry_def)
          show ?thesis
            by (simp add: returned_h_select select_def Inr hcp hs scs bk hbk x y d s r
                  h_get_alternatives_refines [OF rel] selection_object_copy)
        qed
      qed
    qed
  qed
qed

lemma builtin_represents: "represents MaterialSelector_object catalog_heap MaterialSelector"
  by (simp add: represents_def MaterialSelector_object_def MaterialSelector_def
        catalog_heap_def deref_def)

text \<open>
  Claim C9. On a well-formed selector object, a call of \<open>select\<close> leaves every object
  that was on the heap as it was (its writes go to the copy it allocates). A second
  call with the same arguments, run on the heap the first call left, returns the same
  outcome: the same winner with the same score, reasons and alternatives in the same
  order, or the same exception. More generally the outcome is the same on any heap that
  holds the same objects behind the catalog's references. The outcome is fixed by the
  catalog's order: the candidates are the catalog's entries, in declaration order, whose
  weight limit admits the weight; the winner is the first candidate that no candidate
  exceeds in score; the alternatives are the first two other candidates of the stable
  sort by descending score, in which candidates of equal score keep declaration order.
\<close>

theorem select_repeatable:
  assumes ok: "object_ok self h"
  shows "take (length h) (snd (h_select self c w f rp h)) = h
     \<and> returned (h_select self c w f rp (snd (h_select self c w f rp h)))
         = returned (h_select self c w f rp h)
     \<and> (\<forall>h'. agree (material_refs self) h h' \<longrightarrow>
            returned (h_select self c w f rp h') = returned (h_select self c w f rp h))
     \<and> (\<forall>cp scs.
            h_get_cat_prefs self (normalize_category c) = Inr cp \<longrightarrow>
            h_score_materials self h cp (normalize_category c) w f rp (material_refs self)
              = Inr scs \<longrightarrow>
              map (\<lambda>(k, d). (k, ref_material d)) scs
                = filter (\<lambda>(k, a). w \<le> weight_limit (items (h ! a))) (material_refs self)
            \<and> sorted_wrt (\<lambda>x y. ref_score (snd y) \<le> ref_score (snd x))
                  (sort_key (\<lambda>x. - ref_score (snd x)) scs)
            \<and> (\<forall>v. filter (\<lambda>x. ref_score (snd x) = v)
                        (sort_key (\<lambda>x. - ref_score (snd x)) scs)
                     = filter (\<lambda>x. ref_score (snd x) = v) scs)
            \<and> (scs \<noteq> [] \<longrightarrow>
                 (\<exists>pre k best post. scs = pre @ (k, best) # post
                    \<and> (\<forall>y \<in> set pre. ref_score (snd y) < ref_score best)
                    \<and> (\<forall>y \<in> set post. ref_score (snd y) \<le> ref_score best)
                    \<and> returned (h_select self c w f rp h)
                        = Inr ((h ! ref_material best)
                                \<lparr>added_selection_score := Some (ref_score best),
                                  added_selection_reasons := Some (ref_reasons best),
                                  added_alternatives :=
                                    Some (take 2
                                      (map (\<lambda>(k', d). alternative_of (h ! ref_material d) d)
                                         (filter (\<lambda>x. fst x \<noteq> k)
                                            (sort_key (\<lambda>x. - ref_score (snd x)) scs))))\<rparr>))))"
proof -
  obtain ext where ext: "snd (h_select self c w f rp h) = h @ ext"
    using h_select_frame by blast
  have frame: "take (length h) (snd (h_select self c w f rp h)) = h"
    by (simp add: ext)
  have reads: "returned (h_select self c w f rp h') = returned (h_select self c w f rp h)"
    if "agree (material_refs self) h h'" for h'
    using that by (rule h_select_reads_catalog_only)
  have again: "returned (h_select self c w f rp (snd (h_select self c w f rp h)))
         = returned (h_select self c w f rp h)"
    unfolding ext by (rule reads) (rule object_ok_agree [OF ok])
  have order: "map (\<lambda>(k, d). (k, ref_material d)) scs
                = filter (\<lambda>(k, a). w \<le> weight_limit (items (h ! a))) (material_refs self)
            \<and> sorted_wrt (\<lambda>x y. ref_score (snd y) \<le> ref_score (snd x))
                  (sort_key (\<lambda>x. - ref_score (snd x)) scs)
            \<and> (\<forall>v. filter (\<lambda>x. ref_score (snd x) = v)
                        (sort_key (\<lambda>x. - ref_score (snd x)) scs)
                     = filter (\<lambda>x. ref_score (snd x) = v) scs)
            \<and> (scs \<noteq> [] \<longrightarrow>
                 (\<exists>pre k best post. scs = pre @ (k, best) # post
                    \<and> (\<forall>y \<in> set pre. ref_score (snd y) < ref_score best)
                    \<and> (\<forall>y \<in> set post. ref_score (snd y) \<le> ref_score best)
                    \<and> returned (h_select self c w f rp h)
                        = Inr ((h ! ref_material best)
                                \<lparr>added_selection_score := Some (ref_score best),
                                  added_selection_reasons := Some (ref_reasons best),
                                  added_alternatives :=
                                    Some (take 2
                                      (map (\<lambda>(k', d). alternative_of (h ! ref_material d) d)
                                         (filter (\<lambda>x. fst x \<noteq> k)
                                            (sort_key (\<lambda>x. - ref_score (snd x)) scs))))\<rparr>)))"
    if cp: "h_get_cat_prefs self (normalize_category c) = Inr cp"
      and scs: "h_score_materials self h cp (normalize_category c) w f rp (material_refs self)
                  = Inr scs"
    for cp scs
    using h_score_materials_candidates [OF scs] sort_desc_stable [of scs]
      h_select_winner [OF ok cp scs]
    by blast
  from frame again reads order show ?thesis by blast
qed

theorem select_repeatable_witness:
  "object_ok MaterialSelector_object catalog_heap
   \<and> fst (h_select MaterialSelector_object (Some ''other'') 12 2 True catalog_heap) = Inr 7
   \<and> take 7 (snd (h_select MaterialSelector_object (Some ''other'') 12 2 True catalog_heap))
        = catalog_heap
   \<and> returned (h_select MaterialSelector_object (Some ''other'') 12 2 True
                 (snd (h_select MaterialSelector_object (Some ''other'') 12 2 True catalog_heap)))
        = returned (h_select MaterialSelector_object (Some ''other'') 12 2 True catalog_heap)
   \<and> map_sum id (\<lambda>obj. (name (items obj), added_selection_score obj,
                           map_option (map alt_name) (added_alternatives obj)))
         (returned (h_select MaterialSelector_object (Some ''other'') 12 2 True catalog_heap))
        = Inr (''Honeycomb Cardboard'', Some 81, Some [''Double-Wall Corrugated Cardboard''])"
proof -
  have ok: "object_ok MaterialSelector_object catalog_heap"
    by (simp add: object_ok_def MaterialSelector_object_def catalog_heap_def)
  have len: "length catalog_heap = 7"
    by (simp add: catalog_heap_def)
  note rep = select_repeatable [OF ok, where c = "Some ''other''" and w = 12 and f = 2
      and rp = True]
  from rep have frame: "take 7 (snd (h_select MaterialSelector_object (Some ''other'') 12 2 True
      catalog_heap)) = catalog_heap"
    by (simp add: len)
  from rep have again: "returned (h_select MaterialSelector_object (Some ''other'') 12 2 True
                 (snd (h_select MaterialSelector_object (Some ''other'') 12 2 True catalog_heap)))
        = returned (h_select MaterialSelector_object (Some ''other'') 12 2 True catalog_heap)"
    by blast
  have run: "fst (h_select MaterialSelector_object (Some ''other'') 12 2 True catalog_heap) = Inr 7
    \<and> map_sum id (\<lambda>obj. (name (items obj), added_selection_score obj,
                           map_option (map alt_name) (added_alternatives obj)))
         (returned (h_select MaterialSelector_object (Some ''other'') 12 2 True catalog_heap))
        = Inr (''Honeycomb Cardboard'', Some 81, Some [''Double-Wall Corrugated Cardboard''])"
    by (simp add: h_select_def Let_def normalize_category_def lower_def lower_char_def
          h_get_cat_prefs_def get_or_def MaterialSelector_object_def MaterialSelector_def
          catalog_heap_def fresh_object_def catalog_defs deref_def setitem_def returned_def
          h_score_material_def weight_compatibility_def h_max_key_def
          fragility_handling_def sustainability_points_def h_category_match_def
          recyclability_def cost_efficiency_def h_get_alternatives_def alternative_of_def)
  from ok frame again run show ?thesis by blast
qed



end
